theory Spec2Isabelle
  imports Complex_Main "HOL-Library.Product_Lexorder" "HOL-Library.Multiset" "HOL-Library.Log_Nat"
begin

section \<open>Data model\<close>

text \<open>
  The notebook \<^verbatim>\<open>Historical_Market_Returns.ipynb\<close> is a linear sequence of pandas
  operations on three tables. A table is a list of rows, a row a record of its columns.
  A nullable float or code column is an \<open>option\<close> column: \<open>None\<close> is pandas' NaN.
  The tables are modelled with real numbers in their float columns. The rounding of
  binary64 arithmetic is modelled on its own, for the total return and for the monthly
  loop, whose results depend on it.
  A timestamp is the triple (year, month, day); a month-end timestamp, as produced by
  \<^verbatim>\<open>+ MonthEnd(0)\<close>, is determined by (year, month) and is modelled as that pair.
  Tuples are ordered lexicographically, as pandas orders a multi-column sort key.
  Columns the computation never reads (permco, retx, cfacshr, cfacpr, dlstcd, smb, hml,
  mkt) are left out.
\<close>

type_synonym timestamp = "int \<times> int \<times> int"
type_synonym month_end = "int \<times> int"

text \<open>The query result \<^verbatim>\<open>a\<close> (copied to \<^verbatim>\<open>crsp_raw\<close>).\<close>

record crsp_raw_row =
  a_permno :: int
  a_date :: timestamp
  a_shrcd :: "int option"
  a_exchcd :: "int option"
  a_ret :: "real option"
  a_shrout :: "real option"
  a_prc :: "real option"

text \<open>\<^verbatim>\<open>crsp_raw\<close> after cleaning.\<close>

record crsp_row =
  c_permno :: int
  c_date :: month_end
  c_shrcd :: "int option"
  c_exchcd :: "int option"
  c_ret :: "real option"
  c_shrout :: "real option"
  c_prc :: "real option"

text \<open>The query result \<^verbatim>\<open>b\<close> (copied to \<^verbatim>\<open>dlret_raw\<close>).\<close>

record dlret_raw_row =
  b_permno :: int
  b_dlret :: "real option"
  b_dlstdt :: timestamp

text \<open>The projection \<^verbatim>\<open>dlret_raw[['permno','date','dlret']]\<close> of the cleaned table.\<close>

record dlret_row =
  d_permno :: int
  d_date :: month_end
  d_dlret :: "real option"

text \<open>
  The frame \<^verbatim>\<open>stocks\<close>. The columns \<open>me\<close> and \<open>lme\<close> are added by later assignments;
  until then they hold \<open>None\<close>.
\<close>

record stocks_row =
  permno :: int
  date :: month_end
  shrcd :: "int option"
  exchcd :: "int option"
  ret :: "real option"
  shrout :: "real option"
  prc :: "real option"
  dlret :: "real option"
  me :: "real option"
  lme :: "real option"

text \<open>
  The analysis panel: \<^verbatim>\<open>stocks[['permno','year','month','prc','shrout','lme','ret']].dropna()\<close>.
  After \<^verbatim>\<open>dropna\<close> no entry is NaN, so its float columns are plain reals.
\<close>

record panel_row =
  p_permno :: int
  p_year :: int
  p_month :: int
  p_prc :: real
  p_shrout :: real
  p_lme :: real
  p_ret :: real

text \<open>The table \<^verbatim>\<open>c\<close> (\<^verbatim>\<open>ff.factors_monthly\<close>), and the frame \<^verbatim>\<open>french\<close> made from it.\<close>

record french_raw_row =
  ff_date :: timestamp
  ff_mktrf :: real
  ff_rf :: real

record french_row =
  f_year :: int
  f_month :: int
  f_mktrf :: real
  f_rf :: real

text \<open>
  The result of a float computation that may fail to be a finite number: a division by
  zero gives an infinity or NaN, and these propagate through later arithmetic.
\<close>

datatype fval = Fin real | PInf | NInf | NaN

text \<open>
  A row of \<^verbatim>\<open>monthly_returns\<close>; the columns \<^verbatim>\<open>MktRF-VW\<close> and \<^verbatim>\<open>MktRF-EW\<close> are results
  of divisions.
\<close>

record monthly_row =
  m_year :: int
  m_month :: int
  MktRF_VW :: fval
  MktRF_EW :: fval
  Lagged_Mkt_Value :: real

datatype error = IndexError

section \<open>pandas primitives\<close>

definition MonthEnd :: "timestamp \<Rightarrow> month_end" where
  "MonthEnd t = (fst t, fst (snd t))"

definition fillna :: "'a \<Rightarrow> 'a option \<Rightarrow> 'a option" where
  "fillna v x = (case x of None \<Rightarrow> Some v | Some y \<Rightarrow> Some y)"

text \<open>\<^verbatim>\<open>Series.ffill()\<close>: a missing entry takes the last value seen above it, if any.\<close>

fun ffill_from :: "'a option \<Rightarrow> 'a option list \<Rightarrow> 'a option list" where
  "ffill_from prev [] = []"
| "ffill_from prev (x # xs) =
     (let v = (case x of None \<Rightarrow> prev | Some y \<Rightarrow> Some y) in v # ffill_from v xs)"

definition ffill :: "'a option list \<Rightarrow> 'a option list" where
  "ffill xs = ffill_from None xs"

text \<open>Element-wise arithmetic on nullable columns: NaN propagates.\<close>

definition nan_mul :: "real option \<Rightarrow> real option \<Rightarrow> real option" where
  "nan_mul x y = (case x of None \<Rightarrow> None | Some a \<Rightarrow> (case y of None \<Rightarrow> None | Some b \<Rightarrow> Some (a * b)))"

definition nan_add :: "real option \<Rightarrow> real option \<Rightarrow> real option" where
  "nan_add x y = (case x of None \<Rightarrow> None | Some a \<Rightarrow> (case y of None \<Rightarrow> None | Some b \<Rightarrow> Some (a + b)))"

text \<open>\<^verbatim>\<open>Series.diff(1)\<close>: the first entry is NaN.\<close>

definition diff1 :: "int list \<Rightarrow> int option list" where
  "diff1 xs = (case xs of [] \<Rightarrow> [] | x # t \<Rightarrow> None # map (\<lambda>(p, q). Some (q - p)) (zip xs t))"

text \<open>
  \<^verbatim>\<open>df[['permno','me']].groupby('permno').shift(1)\<close>: every row receives the \<open>me\<close> of the
  previous row of its own group, NaN when it is the first of the group. The scan keeps,
  per key, the value of the last row seen.
\<close>

fun groupby_shift_from :: "(int \<rightharpoonup> real option) \<Rightarrow> (int \<times> real option) list \<Rightarrow> real option list" where
  "groupby_shift_from seen [] = []"
| "groupby_shift_from seen (kv # rest) =
     (case seen (fst kv) of None \<Rightarrow> None | Some w \<Rightarrow> w)
       # groupby_shift_from (seen(fst kv \<mapsto> snd kv)) rest"

definition groupby_shift :: "(int \<times> real option) list \<Rightarrow> real option list" where
  "groupby_shift kvs = groupby_shift_from Map.empty kvs"

section \<open>Cleaning (cell 9)\<close>

definition clean_crsp :: "crsp_raw_row list \<Rightarrow> crsp_row list" where
  "clean_crsp crsp_raw =
     map (\<lambda>r. \<lparr>c_permno = a_permno r, c_date = MonthEnd (a_date r),
               c_shrcd = a_shrcd r, c_exchcd = a_exchcd r, c_ret = a_ret r,
               c_shrout = a_shrout r, c_prc = map_option abs (a_prc r)\<rparr>)
         (sort_key (\<lambda>r. (a_permno r, a_date r)) crsp_raw)"

definition clean_dlret :: "dlret_raw_row list \<Rightarrow> dlret_row list" where
  "clean_dlret dlret_raw =
     map (\<lambda>r. \<lparr>d_permno = b_permno r, d_date = MonthEnd (b_dlstdt r), d_dlret = b_dlret r\<rparr>)
         (sort_key (\<lambda>r. (b_permno r, b_dlstdt r)) dlret_raw)"

section \<open>Merge and fill\<close>

text \<open>
  \<^verbatim>\<open>crsp_raw.merge(dlret_raw[...], how='outer', on=['permno','date'])\<close>: the union of the
  keys of both frames, sorted lexicographically (the order pandas documents for an outer
  join); under a key, every left row paired with every right row, and a row of one side
  alone padded with NaN.
\<close>

definition merged_row :: "int \<times> month_end \<Rightarrow> crsp_row option \<Rightarrow> dlret_row option \<Rightarrow> stocks_row" where
  "merged_row k l r =
     \<lparr>permno = fst k, date = snd k,
      shrcd = Option.bind l c_shrcd, exchcd = Option.bind l c_exchcd,
      ret = Option.bind l c_ret, shrout = Option.bind l c_shrout, prc = Option.bind l c_prc,
      dlret = Option.bind r d_dlret, me = None, lme = None\<rparr>"

definition merge_key :: "crsp_row list \<Rightarrow> dlret_row list \<Rightarrow> int \<times> month_end \<Rightarrow> stocks_row list" where
  "merge_key L R k =
     (let ls = filter (\<lambda>l. (c_permno l, c_date l) = k) L;
          rs = filter (\<lambda>r. (d_permno r, d_date r) = k) R
      in if rs = [] then map (\<lambda>l. merged_row k (Some l) None) ls
         else if ls = [] then map (\<lambda>r. merged_row k None (Some r)) rs
         else concat (map (\<lambda>l. map (\<lambda>r. merged_row k (Some l) (Some r)) rs) ls))"

definition merge_outer :: "crsp_row list \<Rightarrow> dlret_row list \<Rightarrow> stocks_row list" where
  "merge_outer L R =
     concat (map (merge_key L R)
       (sort (remdups (map (\<lambda>l. (c_permno l, c_date l)) L @ map (\<lambda>r. (d_permno r, d_date r)) R))))"

text \<open>The column assignments after the merge, one definition per statement.\<close>

definition fillna_dlret :: "stocks_row list \<Rightarrow> stocks_row list" where
  "fillna_dlret stocks = map (\<lambda>r. r\<lparr>dlret := fillna 0 (dlret r)\<rparr>) stocks"

definition ffill_shrcd :: "stocks_row list \<Rightarrow> stocks_row list" where
  "ffill_shrcd stocks = map (\<lambda>(r, v). r\<lparr>shrcd := v\<rparr>) (zip stocks (ffill (map shrcd stocks)))"

definition ffill_exchcd :: "stocks_row list \<Rightarrow> stocks_row list" where
  "ffill_exchcd stocks = map (\<lambda>(r, v). r\<lparr>exchcd := v\<rparr>) (zip stocks (ffill (map exchcd stocks)))"

definition fillna_ret :: "stocks_row list \<Rightarrow> stocks_row list" where
  "fillna_ret stocks = map (\<lambda>r. r\<lparr>ret := fillna 0 (ret r)\<rparr>) stocks"

definition fillna_prc :: "stocks_row list \<Rightarrow> stocks_row list" where
  "fillna_prc stocks = map (\<lambda>r. r\<lparr>prc := fillna 0 (prc r)\<rparr>) stocks"

definition fillna_shrout :: "stocks_row list \<Rightarrow> stocks_row list" where
  "fillna_shrout stocks = map (\<lambda>r. r\<lparr>shrout := fillna 0 (shrout r)\<rparr>) stocks"

definition set_me :: "stocks_row list \<Rightarrow> stocks_row list" where
  "set_me stocks = map (\<lambda>r. r\<lparr>me := nan_mul (prc r) (shrout r)\<rparr>) stocks"

text \<open>\<^verbatim>\<open>stocks['ret'] = (1 + stocks['ret']) * (1 + stocks['dlret']) - 1\<close>\<close>

definition total_return :: "real option \<Rightarrow> real option \<Rightarrow> real option" where
  "total_return r d = nan_add (nan_mul (nan_add (Some 1) r) (nan_add (Some 1) d)) (Some (- 1))"

definition redefine_ret :: "stocks_row list \<Rightarrow> stocks_row list" where
  "redefine_ret stocks = map (\<lambda>r. r\<lparr>ret := total_return (ret r) (dlret r)\<rparr>) stocks"

definition merged_filled :: "crsp_raw_row list \<Rightarrow> dlret_raw_row list \<Rightarrow> stocks_row list" where
  "merged_filled crsp_raw dlret_raw =
     redefine_ret (set_me (fillna_shrout (fillna_prc (fillna_ret (ffill_exchcd (ffill_shrcd
       (fillna_dlret (merge_outer (clean_crsp crsp_raw) (clean_dlret dlret_raw)))))))))"

section \<open>Lagged market equity\<close>

definition daten :: "stocks_row \<Rightarrow> int" where
  "daten r = fst (date r) * 12 + snd (date r)"

definition sort_stocks :: "stocks_row list \<Rightarrow> stocks_row list" where
  "sort_stocks stocks = sort_key (\<lambda>r. (permno r, date r)) stocks"

text \<open>
  \<^verbatim>\<open>IsValidLag\<close> is first \<^verbatim>\<open>daten.diff(1) == 1\<close> and then set to False wherever
  \<^verbatim>\<open>permno.diff(1) != 0\<close> (a NaN difference is unequal to 0).
\<close>

definition IsValidLag :: "stocks_row list \<Rightarrow> bool list" where
  "IsValidLag stocks =
     map (\<lambda>(v, p). if p \<noteq> Some 0 then False else v)
       (zip (map (\<lambda>d. d = Some 1) (diff1 (map daten stocks))) (diff1 (map permno stocks)))"

definition attach_lme :: "stocks_row list \<Rightarrow> stocks_row list" where
  "attach_lme stocks =
     map (\<lambda>(r, v, l). r\<lparr>lme := (if v = False then None else l)\<rparr>)
       (zip stocks (zip (IsValidLag stocks) (groupby_shift (map (\<lambda>r. (permno r, me r)) stocks))))"

definition enriched :: "crsp_raw_row list \<Rightarrow> dlret_raw_row list \<Rightarrow> stocks_row list" where
  "enriched crsp_raw dlret_raw = attach_lme (sort_stocks (merged_filled crsp_raw dlret_raw))"

section \<open>Filter and reshape\<close>

definition filter_codes :: "stocks_row list \<Rightarrow> stocks_row list" where
  "filter_codes stocks =
     filter (\<lambda>r. (shrcd r = Some 10 \<or> shrcd r = Some 11)
                \<and> (exchcd r = Some 1 \<or> exchcd r = Some 2 \<or> exchcd r = Some 3)) stocks"

text \<open>
  The projection to the seven columns and \<^verbatim>\<open>dropna()\<close>: a row with a NaN in one of the
  nullable columns is dropped, every other row is kept with its values.
\<close>

definition dropna_row :: "stocks_row \<Rightarrow> panel_row option" where
  "dropna_row r =
     (case prc r of None \<Rightarrow> None | Some p \<Rightarrow>
      (case shrout r of None \<Rightarrow> None | Some s \<Rightarrow>
      (case lme r of None \<Rightarrow> None | Some l \<Rightarrow>
      (case ret r of None \<Rightarrow> None | Some t \<Rightarrow>
         Some \<lparr>p_permno = permno r, p_year = fst (date r), p_month = snd (date r),
               p_prc = p, p_shrout = s, p_lme = l, p_ret = t\<rparr>))))"

definition dropna :: "stocks_row list \<Rightarrow> panel_row list" where
  "dropna stocks = List.map_filter dropna_row stocks"

definition analysis_panel :: "crsp_raw_row list \<Rightarrow> dlret_raw_row list \<Rightarrow> panel_row list" where
  "analysis_panel crsp_raw dlret_raw = dropna (filter_codes (enriched crsp_raw dlret_raw))"

section \<open>Reference factors (cell 7)\<close>

definition french_frame :: "french_raw_row list \<Rightarrow> french_row list" where
  "french_frame c =
     map (\<lambda>r. \<lparr>f_year = fst (MonthEnd (ff_date r)), f_month = snd (MonthEnd (ff_date r)),
               f_mktrf = ff_mktrf r, f_rf = ff_rf r\<rparr>) c"

section \<open>Monthly aggregation (cell 11)\<close>

text \<open>\<^verbatim>\<open>.iloc[0]\<close> raises IndexError on an empty selection.\<close>

definition iloc0 :: "'a list \<Rightarrow> error + 'a" where
  "iloc0 xs = (case xs of [] \<Rightarrow> Inl IndexError | x # _ \<Rightarrow> Inr x)"

text \<open>
  Arithmetic of numpy floats raises nothing. NaN is absorbing; an infinity plus the
  opposite infinity and an infinity times zero are NaN; a nonzero number divided by zero
  is the infinity of its sign and 0/0 is NaN. The zero divisors of this program are a sum
  of a column and a square root; such a zero is +0, so the sign of the quotient is the
  sign of the dividend.
\<close>

fun fval_neg :: "fval \<Rightarrow> fval" where
  "fval_neg (Fin x) = Fin (- x)"
| "fval_neg PInf = NInf"
| "fval_neg NInf = PInf"
| "fval_neg NaN = NaN"

fun fval_add :: "fval \<Rightarrow> fval \<Rightarrow> fval" where
  "fval_add (Fin x) (Fin y) = Fin (x + y)"
| "fval_add NaN v = NaN"
| "fval_add v NaN = NaN"
| "fval_add PInf NInf = NaN"
| "fval_add NInf PInf = NaN"
| "fval_add PInf v = PInf"
| "fval_add v PInf = PInf"
| "fval_add NInf v = NInf"
| "fval_add v NInf = NInf"

definition fval_sub :: "fval \<Rightarrow> fval \<Rightarrow> fval" where
  "fval_sub u v = fval_add u (fval_neg v)"

fun fval_mul :: "fval \<Rightarrow> fval \<Rightarrow> fval" where
  "fval_mul (Fin x) (Fin y) = Fin (x * y)"
| "fval_mul NaN v = NaN"
| "fval_mul v NaN = NaN"
| "fval_mul PInf (Fin y) = (if 0 < y then PInf else if y < 0 then NInf else NaN)"
| "fval_mul NInf (Fin y) = (if 0 < y then NInf else if y < 0 then PInf else NaN)"
| "fval_mul (Fin x) PInf = (if 0 < x then PInf else if x < 0 then NInf else NaN)"
| "fval_mul (Fin x) NInf = (if 0 < x then NInf else if x < 0 then PInf else NaN)"
| "fval_mul PInf PInf = PInf"
| "fval_mul NInf NInf = PInf"
| "fval_mul PInf NInf = NInf"
| "fval_mul NInf PInf = NInf"

definition float_div :: "real \<Rightarrow> real \<Rightarrow> fval" where
  "float_div x y =
     (if y \<noteq> 0 then Fin (x / y) else if x = 0 then NaN else if 0 < x then PInf else NInf)"

fun fval_div :: "fval \<Rightarrow> fval \<Rightarrow> fval" where
  "fval_div (Fin x) (Fin y) = float_div x y"
| "fval_div NaN v = NaN"
| "fval_div v NaN = NaN"
| "fval_div (Fin x) v = Fin 0"
| "fval_div PInf (Fin y) = (if 0 \<le> y then PInf else NInf)"
| "fval_div NInf (Fin y) = (if 0 \<le> y then NInf else PInf)"
| "fval_div u v = NaN"

fun fval_sqrt :: "fval \<Rightarrow> fval" where
  "fval_sqrt (Fin x) = (if x < 0 then NaN else Fin (sqrt x))"
| "fval_sqrt PInf = PInf"
| "fval_sqrt v = NaN"

text \<open>\<^verbatim>\<open>values.sum()\<close> of a float column.\<close>

definition fval_sum :: "fval list \<Rightarrow> fval" where
  "fval_sum vs = foldl fval_add (Fin 0) vs"

text \<open>
  \<^verbatim>\<open>Series.mean()\<close> and \<^verbatim>\<open>Series.std()\<close> skip the NaN entries and no others. The mean
  is the sum of the remaining entries divided by their count, NaN when there is none. The
  standard deviation has ddof = 1: with \<open>avg\<close> the mean, the squares \<open>(avg - v) ** 2\<close> are
  summed, divided by count - 1 and the square root is taken; fewer than two entries
  give NaN.
\<close>

definition notna :: "fval list \<Rightarrow> fval list" where
  "notna xs = filter (\<lambda>v. v \<noteq> NaN) xs"

definition series_mean :: "fval list \<Rightarrow> fval" where
  "series_mean xs =
     (let vs = notna xs
      in if vs = [] then NaN else fval_div (fval_sum vs) (Fin (real (length vs))))"

definition series_std :: "fval list \<Rightarrow> fval" where
  "series_std xs =
     (let vs = notna xs; n = length vs
      in if n \<le> 1 then NaN
         else (let avg = fval_div (fval_sum vs) (Fin (real n));
                   sqr = map (\<lambda>v. fval_mul (fval_sub avg v) (fval_sub avg v)) vs
               in fval_sqrt (fval_div (fval_sum sqr) (Fin (real n - 1)))))"

definition french_date :: "french_row list \<Rightarrow> (int \<times> int) list" where
  "french_date french = sort (remdups (map (\<lambda>f. (f_year f, f_month f)) french))"

definition stock_date :: "panel_row list \<Rightarrow> (int \<times> int) list" where
  "stock_date stocks = sort (remdups (map (\<lambda>p. (p_year p, p_month p)) stocks))"

text \<open>
  \<^verbatim>\<open>french_date.merge(stock_date, how='inner', on=['year','month'])\<close>: both sides are free
  of duplicates, so the result is the left keys, in their order, that occur on the right.
\<close>

definition date_keys :: "french_row list \<Rightarrow> panel_row list \<Rightarrow> (int \<times> int) list" where
  "date_keys french stocks = filter (\<lambda>k. k \<in> set (stock_date stocks)) (french_date french)"

definition this_stocks :: "panel_row list \<Rightarrow> int \<times> int \<Rightarrow> panel_row list" where
  "this_stocks stocks k = filter (\<lambda>p. p_year p = fst k \<and> p_month p = snd k) stocks"

text \<open>The body of the loop over \<^verbatim>\<open>date.iterrows()\<close>, up to the appends.\<close>

definition month_returns :: "french_row list \<Rightarrow> panel_row list \<Rightarrow> int \<times> int \<Rightarrow> error + monthly_row" where
  "month_returns french stocks k =
     (case iloc0 (map f_rf (filter (\<lambda>f. f_year f = fst k \<and> f_month f = snd k) french)) of
        Inl e \<Rightarrow> Inl e
      | Inr rf \<Rightarrow>
         (let start_value = sum_list (map p_lme (this_stocks stocks k));
              end_value = sum_list (map (\<lambda>p. p_lme p * (1 + p_ret p)) (this_stocks stocks k));
              value_monthly_return = fval_sub (float_div (end_value - start_value) start_value) (Fin rf);
              equal_monthly_return = fval_sub (series_mean (map (\<lambda>p. Fin (p_ret p)) (this_stocks stocks k))) (Fin rf)
          in Inr \<lparr>m_year = fst k, m_month = snd k, MktRF_VW = value_monthly_return,
                  MktRF_EW = equal_monthly_return, Lagged_Mkt_Value = start_value\<rparr>))"

text \<open>The loop: the rows appended so far are the accumulator; an exception ends the run.\<close>

fun monthly_loop :: "french_row list \<Rightarrow> panel_row list \<Rightarrow> (int \<times> int) list \<Rightarrow> monthly_row list \<Rightarrow> error + monthly_row list" where
  "monthly_loop french stocks [] acc = Inr acc"
| "monthly_loop french stocks (k # ks) acc =
     (case month_returns french stocks k of
        Inl e \<Rightarrow> Inl e
      | Inr row \<Rightarrow> monthly_loop french stocks ks (acc @ [row]))"

definition monthly_returns :: "french_row list \<Rightarrow> panel_row list \<Rightarrow> error + monthly_row list" where
  "monthly_returns french stocks = monthly_loop french stocks (date_keys french stocks) []"

section \<open>Comparison (cell 13)\<close>

text \<open>\<^verbatim>\<open>monthly_returns.merge(french, how='inner', on=['year','month'])\<close>\<close>

definition both :: "monthly_row list \<Rightarrow> french_row list \<Rightarrow> (monthly_row \<times> french_row) list" where
  "both monthly french =
     concat (map (\<lambda>m. map (\<lambda>f. (m, f))
                        (filter (\<lambda>f. f_year f = m_year m \<and> f_month f = m_month m) french)) monthly)"

definition col_mktrf :: "(monthly_row \<times> french_row) list \<Rightarrow> fval list" where
  "col_mktrf b = map (\<lambda>x. Fin (f_mktrf (snd x))) b"

definition col_MktRF_VW :: "(monthly_row \<times> french_row) list \<Rightarrow> fval list" where
  "col_MktRF_VW b = map (\<lambda>x. MktRF_VW (fst x)) b"

definition french_mean :: "(monthly_row \<times> french_row) list \<Rightarrow> fval" where
  "french_mean b = fval_mul (Fin 1200) (series_mean (col_mktrf b))"

definition french_std :: "(monthly_row \<times> french_row) list \<Rightarrow> fval" where
  "french_std b = fval_mul (Fin (100 * sqrt 12)) (series_std (col_mktrf b))"

definition french_SR :: "(monthly_row \<times> french_row) list \<Rightarrow> fval" where
  "french_SR b = fval_div (french_mean b) (french_std b)"

definition replicated_mean :: "(monthly_row \<times> french_row) list \<Rightarrow> fval" where
  "replicated_mean b = fval_mul (Fin 1200) (series_mean (col_MktRF_VW b))"

definition replicated_std :: "(monthly_row \<times> french_row) list \<Rightarrow> fval" where
  "replicated_std b = fval_mul (Fin (100 * sqrt 12)) (series_std (col_MktRF_VW b))"

definition replicated_SR :: "(monthly_row \<times> french_row) list \<Rightarrow> fval" where
  "replicated_SR b = fval_div (replicated_mean b) (replicated_std b)"

section \<open>Binary64 arithmetic\<close>















section \<open>The total return and the monthly loop in binary64\<close>















section \<open>Auxiliary definitions\<close>

text \<open>
  The net effect of the assignments between the merge and the sort on one merged row,
  given the forward-filled codes of its position.
\<close>

definition filled_row :: "stocks_row \<Rightarrow> int option \<Rightarrow> int option \<Rightarrow> stocks_row" where
  "filled_row r sc ec =
     r\<lparr>dlret := fillna 0 (dlret r), shrcd := sc, exchcd := ec,
       ret := total_return (fillna 0 (ret r)) (fillna 0 (dlret r)),
       prc := fillna 0 (prc r), shrout := fillna 0 (shrout r),
       me := nan_mul (fillna 0 (prc r)) (fillna 0 (shrout r))\<rparr>"

text \<open>The value a NaN is replaced with by \<^verbatim>\<open>fillna(0)\<close>, as a plain number.\<close>

definition or_zero :: "real option \<Rightarrow> real" where
  "or_zero x = (case x of None \<Rightarrow> 0 | Some v \<Rightarrow> v)"

text \<open>The finite entries of a float column.\<close>

definition finite_entries :: "fval list \<Rightarrow> real list" where
  "finite_entries xs = List.map_filter (\<lambda>v. case v of Fin x \<Rightarrow> Some x | _ \<Rightarrow> None) xs"

text \<open>Mean and sample variance (denominator n - 1) of a list of numbers, as the specification words them.\<close>

definition mean :: "real list \<Rightarrow> real" where
  "mean xs = sum_list xs / real (length xs)"

definition sample_variance :: "real list \<Rightarrow> real" where
  "sample_variance xs = (\<Sum>x\<leftarrow>xs. (x - mean xs)\<^sup>2) / (real (length xs) - 1)"

definition population_variance :: "real list \<Rightarrow> real" where
  "population_variance xs = (\<Sum>x\<leftarrow>xs. (x - mean xs)\<^sup>2) / real (length xs)"

text \<open>The shares outstanding of the raw table are nonnegative where present.\<close>

definition shares_nonneg :: "crsp_raw_row list \<Rightarrow> bool" where
  "shares_nonneg crsp_raw = list_all (\<lambda>a. case a_shrout a of None \<Rightarrow> True | Some s \<Rightarrow> 0 \<le> s) crsp_raw"

text \<open>A row whose price and shares are present and nonnegative, with \<open>me\<close> their product.\<close>

definition value_ok :: "stocks_row \<Rightarrow> bool" where
  "value_ok r \<longleftrightarrow> (\<exists>p s. prc r = Some p \<and> shrout r = Some s \<and> 0 \<le> p \<and> 0 \<le> s \<and> me r = Some (p * s))"






section \<open>Example inputs\<close>

text \<open>
  Three securities. Security 1 has a gap (no March row) and a delisting in April whose
  month has an observation without return and codes; security 2 has a delisting in March
  with no observation that month; security 3 starts in May.
\<close>

definition ex_crsp :: "crsp_raw_row list" where
  "ex_crsp =
    [\<lparr>a_permno = 3, a_date = (2000, 5, 31), a_shrcd = Some 11, a_exchcd = Some 3,
      a_ret = Some (1/10), a_shrout = Some 10, a_prc = Some 7\<rparr>,
     \<lparr>a_permno = 3, a_date = (2000, 6, 30), a_shrcd = Some 11, a_exchcd = Some 3,
      a_ret = Some (1/5), a_shrout = Some 10, a_prc = Some 8\<rparr>,
     \<lparr>a_permno = 1, a_date = (2000, 1, 31), a_shrcd = Some 10, a_exchcd = Some 1,
      a_ret = Some (1/20), a_shrout = Some 100, a_prc = Some (- 2)\<rparr>,
     \<lparr>a_permno = 1, a_date = (2000, 2, 29), a_shrcd = Some 10, a_exchcd = Some 1,
      a_ret = Some (1/2), a_shrout = Some 100, a_prc = Some 3\<rparr>,
     \<lparr>a_permno = 1, a_date = (2000, 4, 28), a_shrcd = None, a_exchcd = None,
      a_ret = None, a_shrout = Some 100, a_prc = Some 4\<rparr>,
     \<lparr>a_permno = 2, a_date = (2000, 1, 31), a_shrcd = Some 10, a_exchcd = Some 2,
      a_ret = Some 0, a_shrout = Some 10, a_prc = Some 10\<rparr>,
     \<lparr>a_permno = 2, a_date = (2000, 2, 29), a_shrcd = Some 10, a_exchcd = Some 2,
      a_ret = Some (1/10), a_shrout = Some 10, a_prc = Some 11\<rparr>]"

definition ex_dlret :: "dlret_raw_row list" where
  "ex_dlret =
    [\<lparr>b_permno = 2, b_dlret = None, b_dlstdt = (2000, 3, 7)\<rparr>,
     \<lparr>b_permno = 1, b_dlret = Some (- 1/2), b_dlstdt = (2000, 4, 12)\<rparr>]"

definition ex_c :: "french_raw_row list" where
  "ex_c =
    [\<lparr>ff_date = (2000, 1, 1), ff_mktrf = 1/100, ff_rf = 1/200\<rparr>,
     \<lparr>ff_date = (2000, 2, 1), ff_mktrf = 3/100, ff_rf = 1/100\<rparr>,
     \<lparr>ff_date = (2000, 3, 1), ff_mktrf = 1/100, ff_rf = 1/200\<rparr>,
     \<lparr>ff_date = (2000, 4, 1), ff_mktrf = 2/100, ff_rf = 1/200\<rparr>]"

text \<open>
  Two securities observed in the same month; the second has no name record covering the
  date, so the left join of the query leaves its codes empty.
\<close>

definition ffill_crsp :: "crsp_raw_row list" where
  "ffill_crsp =
    [\<lparr>a_permno = 1, a_date = (2000, 1, 31), a_shrcd = Some 10, a_exchcd = Some 1,
      a_ret = Some (1/20), a_shrout = Some 100, a_prc = Some 2\<rparr>,
     \<lparr>a_permno = 2, a_date = (2000, 1, 31), a_shrcd = None, a_exchcd = None,
      a_ret = Some (1/10), a_shrout = Some 10, a_prc = Some 7\<rparr>]"

text \<open>One security whose first month reports a negative number of shares.\<close>

definition neg_shrout_crsp :: "crsp_raw_row list" where
  "neg_shrout_crsp =
    [\<lparr>a_permno = 1, a_date = (2000, 1, 31), a_shrcd = Some 10, a_exchcd = Some 1,
      a_ret = Some (1/20), a_shrout = Some (- 1), a_prc = Some 5\<rparr>,
     \<lparr>a_permno = 1, a_date = (2000, 2, 29), a_shrcd = Some 10, a_exchcd = Some 1,
      a_ret = Some (1/2), a_shrout = Some 2, a_prc = Some 5\<rparr>]"

text \<open>One security whose first month has no price.\<close>

definition no_price_crsp :: "crsp_raw_row list" where
  "no_price_crsp =
    [\<lparr>a_permno = 1, a_date = (2000, 1, 31), a_shrcd = Some 10, a_exchcd = Some 1,
      a_ret = Some (1/20), a_shrout = Some 100, a_prc = None\<rparr>,
     \<lparr>a_permno = 1, a_date = (2000, 2, 29), a_shrcd = Some 10, a_exchcd = Some 1,
      a_ret = Some (1/2), a_shrout = Some 100, a_prc = Some 3\<rparr>]"

text \<open>
  Two securities; the second reports a negative number of shares in January, so that the
  lagged market values of February are 5 and -5 and cancel.
\<close>

definition cancel_crsp :: "crsp_raw_row list" where
  "cancel_crsp =
    [\<lparr>a_permno = 1, a_date = (2000, 1, 31), a_shrcd = Some 10, a_exchcd = Some 1,
      a_ret = Some 0, a_shrout = Some 1, a_prc = Some 5\<rparr>,
     \<lparr>a_permno = 1, a_date = (2000, 2, 29), a_shrcd = Some 10, a_exchcd = Some 1,
      a_ret = Some (1/10), a_shrout = Some 1, a_prc = Some 5\<rparr>,
     \<lparr>a_permno = 1, a_date = (2000, 3, 31), a_shrcd = Some 10, a_exchcd = Some 1,
      a_ret = Some 0, a_shrout = Some 1, a_prc = Some 5\<rparr>,
     \<lparr>a_permno = 2, a_date = (2000, 1, 31), a_shrcd = Some 10, a_exchcd = Some 1,
      a_ret = Some 0, a_shrout = Some (- 1), a_prc = Some 5\<rparr>,
     \<lparr>a_permno = 2, a_date = (2000, 2, 29), a_shrcd = Some 10, a_exchcd = Some 1,
      a_ret = Some (1/2), a_shrout = Some 1, a_prc = Some 5\<rparr>,
     \<lparr>a_permno = 2, a_date = (2000, 3, 31), a_shrcd = Some 10, a_exchcd = Some 1,
      a_ret = Some 0, a_shrout = Some 1, a_prc = Some 5\<rparr>]"

text \<open>
  An aligned frame of five months whose reference series is 0.01, -0.02, 0.03, 0.00,
  0.015 and whose replicated series has a NaN in the second month.
\<close>

definition stat_both :: "(monthly_row \<times> french_row) list" where
  "stat_both =
     map (\<lambda>(m, x, v). (\<lparr>m_year = 2000, m_month = m, MktRF_VW = v, MktRF_EW = NaN, Lagged_Mkt_Value = 1\<rparr>,
                       \<lparr>f_year = 2000, f_month = m, f_mktrf = x, f_rf = 0\<rparr>))
       [(1, 1/100, Fin (1/100)), (2, - 2/100, NaN), (3, 3/100, Fin (3/100)),
        (4, 0, Fin (- 1/100)), (5, 15/1000, Fin (1/100))]"

text \<open>The same frame with the second replicated entry minus infinity.\<close>

definition stat_inf :: "(monthly_row \<times> french_row) list" where
  "stat_inf =
     map (\<lambda>(m, x, v). (\<lparr>m_year = 2000, m_month = m, MktRF_VW = v, MktRF_EW = NaN, Lagged_Mkt_Value = 1\<rparr>,
                       \<lparr>f_year = 2000, f_month = m, f_mktrf = x, f_rf = 0\<rparr>))
       [(1, 1/100, Fin (1/100)), (2, - 2/100, NInf), (3, 3/100, Fin (3/100)),
        (4, 0, Fin (- 1/100)), (5, 15/1000, Fin (1/100))]"







section \<open>Facts about the primitives\<close>

lemma length_diff1: "length (diff1 xs) = length xs"
  by (cases xs) (simp_all add: diff1_def)

lemma nth_diff1:
  "i < length xs \<Longrightarrow> diff1 xs ! i = (if i = 0 then None else Some (xs ! i - xs ! (i - 1)))"
  by (cases xs; cases i) (simp_all add: diff1_def)

lemma length_groupby_shift_from: "length (groupby_shift_from seen kvs) = length kvs"
  by (induction kvs arbitrary: seen) simp_all

lemma nth_groupby_shift_from:
  "0 < i \<Longrightarrow> i < length kvs \<Longrightarrow> fst (kvs ! (i - 1)) = fst (kvs ! i)
     \<Longrightarrow> groupby_shift_from seen kvs ! i = snd (kvs ! (i - 1))"
proof (induction kvs arbitrary: seen i)
  case Nil
  then show ?case by simp
next
  case (Cons kv rest)
  show ?case
  proof (cases "i = 1")
    case True
    with Cons.prems obtain kv' rest' where r: "rest = kv' # rest'"
      by (cases rest) auto
    with True Cons.prems show ?thesis by simp
  next
    case False
    with Cons.prems obtain j where j: "i = Suc j" "0 < j" by (cases i) auto
    with Cons.prems have "groupby_shift_from (seen(fst kv \<mapsto> snd kv)) rest ! j = snd (rest ! (j - 1))"
      by (intro Cons.IH) (auto simp: nth_Cons')
    with j show ?thesis by (simp add: nth_Cons')
  qed
qed

lemma length_IsValidLag: "length (IsValidLag stocks) = length stocks"
  by (simp add: IsValidLag_def length_diff1)

lemma nth_IsValidLag:
  "i < length stocks \<Longrightarrow>
     IsValidLag stocks ! i =
       (0 < i \<and> permno (stocks ! i) = permno (stocks ! (i - 1))
          \<and> daten (stocks ! i) - daten (stocks ! (i - 1)) = 1)"
  by (auto simp: IsValidLag_def length_diff1 nth_diff1)

lemma length_attach_lme: "length (attach_lme stocks) = length stocks"
  by (simp add: attach_lme_def length_IsValidLag groupby_shift_def length_groupby_shift_from)

lemma nth_attach_lme:
  assumes "i < length stocks"
  shows "attach_lme stocks ! i =
     (stocks ! i)\<lparr>lme := (if 0 < i \<and> permno (stocks ! i) = permno (stocks ! (i - 1))
                              \<and> daten (stocks ! i) - daten (stocks ! (i - 1)) = 1
                           then me (stocks ! (i - 1)) else None)\<rparr>"
proof -
  let ?kvs = "map (\<lambda>r. (permno r, me r)) stocks"
  have "0 < i \<Longrightarrow> permno (stocks ! i) = permno (stocks ! (i - 1))
          \<Longrightarrow> groupby_shift ?kvs ! i = me (stocks ! (i - 1))"
    using assms nth_groupby_shift_from [of i ?kvs Map.empty]
    by (simp add: groupby_shift_def)
  with assms show ?thesis
    by (simp add: attach_lme_def length_IsValidLag nth_IsValidLag groupby_shift_def
        length_groupby_shift_from)
qed

lemma length_ffill_from: "length (ffill_from prev xs) = length xs"
  by (induction xs arbitrary: prev) (simp_all add: Let_def)

lemma length_ffill: "length (ffill xs) = length xs"
  by (simp add: ffill_def length_ffill_from)

lemma length_fill_steps [simp]:
  "length (fillna_dlret S) = length S" "length (ffill_shrcd S) = length S"
  "length (ffill_exchcd S) = length S" "length (fillna_ret S) = length S"
  "length (fillna_prc S) = length S" "length (fillna_shrout S) = length S"
  "length (set_me S) = length S" "length (redefine_ret S) = length S"
  by (simp_all add: fillna_dlret_def ffill_shrcd_def ffill_exchcd_def fillna_ret_def
      fillna_prc_def fillna_shrout_def set_me_def redefine_ret_def length_ffill)

lemma exchcd_ffill_shrcd: "map exchcd (ffill_shrcd S) = map exchcd S"
  by (rule nth_equalityI) (simp_all add: ffill_shrcd_def length_ffill)

lemma merged_filled_rows:
  "merged_filled crsp_raw dlret_raw =
     (let M = merge_outer (clean_crsp crsp_raw) (clean_dlret dlret_raw)
      in map (\<lambda>(r, sc, ec). filled_row r sc ec)
           (zip M (zip (ffill (map shrcd M)) (ffill (map exchcd M)))))"
proof -
  define M where "M = merge_outer (clean_crsp crsp_raw) (clean_dlret dlret_raw)"
  have e: "map exchcd (ffill_shrcd (fillna_dlret M)) = map exchcd M"
    by (simp add: exchcd_ffill_shrcd) (simp add: fillna_dlret_def)
  have s: "map shrcd (fillna_dlret M) = map shrcd M"
    by (simp add: fillna_dlret_def)
  have "redefine_ret (set_me (fillna_shrout (fillna_prc (fillna_ret (ffill_exchcd (ffill_shrcd
       (fillna_dlret M))))))) = map (\<lambda>(r, sc, ec). filled_row r sc ec)
           (zip M (zip (ffill (map shrcd M)) (ffill (map exchcd M))))"
  proof (rule nth_equalityI)
    show "length (redefine_ret (set_me (fillna_shrout (fillna_prc (fillna_ret (ffill_exchcd (ffill_shrcd
       (fillna_dlret M)))))))) = length (map (\<lambda>(r, sc, ec). filled_row r sc ec)
           (zip M (zip (ffill (map shrcd M)) (ffill (map exchcd M)))))"
      by (simp add: length_ffill)
  next
    fix i
    assume "i < length (redefine_ret (set_me (fillna_shrout (fillna_prc (fillna_ret (ffill_exchcd (ffill_shrcd
       (fillna_dlret M))))))))"
    then have i: "i < length M" by simp
    have a: "ffill_exchcd (ffill_shrcd (fillna_dlret M)) ! i
        = (M ! i)\<lparr>dlret := fillna 0 (dlret (M ! i)), shrcd := ffill (map shrcd M) ! i,
                   exchcd := ffill (map exchcd M) ! i\<rparr>"
      using i unfolding ffill_exchcd_def e
      by (simp add: length_ffill) (simp add: ffill_shrcd_def s length_ffill, simp add: fillna_dlret_def)
    show "redefine_ret (set_me (fillna_shrout (fillna_prc (fillna_ret (ffill_exchcd (ffill_shrcd
       (fillna_dlret M))))))) ! i = map (\<lambda>(r, sc, ec). filled_row r sc ec)
           (zip M (zip (ffill (map shrcd M)) (ffill (map exchcd M)))) ! i"
      using i
      by (simp add: redefine_ret_def set_me_def fillna_shrout_def fillna_prc_def fillna_ret_def a
          length_ffill filled_row_def)
  qed
  then show ?thesis by (simp add: merged_filled_def M_def Let_def)
qed

lemma merged_filled_set:
  assumes "r \<in> set (merged_filled crsp_raw dlret_raw)"
  shows "\<exists>r0 sc ec. r0 \<in> set (merge_outer (clean_crsp crsp_raw) (clean_dlret dlret_raw))
            \<and> r = filled_row r0 sc ec"
  using assms unfolding merged_filled_rows Let_def
  by (auto dest!: set_zip_leftD)

lemma me_filled_row:
  "me (filled_row r sc ec) = Some ((case prc r of None \<Rightarrow> 0 | Some p \<Rightarrow> p) * (case shrout r of None \<Rightarrow> 0 | Some s \<Rightarrow> s))"
  by (simp add: filled_row_def nan_mul_def fillna_def split: option.splits)

lemma me_defined:
  "r \<in> set (sort_stocks (merged_filled crsp_raw dlret_raw)) \<Longrightarrow> me r \<noteq> None"
  by (auto simp: sort_stocks_def me_filled_row dest!: merged_filled_set)

lemma attach_lme_keeps:
  "map permno (attach_lme S) = map permno S" "map date (attach_lme S) = map date S"
  "map me (attach_lme S) = map me S"
  by (rule nth_equalityI; simp add: length_attach_lme nth_attach_lme)+

lemma sorted_enriched:
  "sorted (map (\<lambda>r. (permno r, date r)) (enriched crsp_raw dlret_raw))"
proof -
  let ?S = "sort_stocks (merged_filled crsp_raw dlret_raw)"
  have "map (\<lambda>r. (permno r, date r)) (attach_lme ?S) = map (\<lambda>r. (permno r, date r)) ?S"
    by (rule nth_equalityI; simp add: length_attach_lme nth_attach_lme)
  then show ?thesis
    by (simp add: enriched_def sort_stocks_def)
qed

section \<open>The example, evaluated\<close>

lemma ex_merged:
  "merged_filled ex_crsp ex_dlret =
    [\<lparr>permno = 1, date = (2000, 1), shrcd = Some 10, exchcd = Some 1,
      ret = Some (1 / 20), shrout = Some 100, prc = Some 2, dlret = Some 0,
      me = Some 200, lme = None\<rparr>,
     \<lparr>permno = 1, date = (2000, 2), shrcd = Some 10, exchcd = Some 1,
      ret = Some (1 / 2), shrout = Some 100, prc = Some 3, dlret = Some 0,
      me = Some 300, lme = None\<rparr>,
     \<lparr>permno = 1, date = (2000, 4), shrcd = Some 10, exchcd = Some 1,
      ret = Some (- (1 / 2)), shrout = Some 100, prc = Some 4,
      dlret = Some (- (1 / 2)), me = Some 400, lme = None\<rparr>,
     \<lparr>permno = 2, date = (2000, 1), shrcd = Some 10, exchcd = Some 2,
      ret = Some 0, shrout = Some 10, prc = Some 10, dlret = Some 0,
      me = Some 100, lme = None\<rparr>,
     \<lparr>permno = 2, date = (2000, 2), shrcd = Some 10, exchcd = Some 2,
      ret = Some (1 / 10), shrout = Some 10, prc = Some 11, dlret = Some 0,
      me = Some 110, lme = None\<rparr>,
     \<lparr>permno = 2, date = (2000, 3), shrcd = Some 10, exchcd = Some 2,
      ret = Some 0, shrout = Some 0, prc = Some 0, dlret = Some 0,
      me = Some 0, lme = None\<rparr>,
     \<lparr>permno = 3, date = (2000, 5), shrcd = Some 11, exchcd = Some 3,
      ret = Some (1 / 10), shrout = Some 10, prc = Some 7, dlret = Some 0,
      me = Some 70, lme = None\<rparr>,
     \<lparr>permno = 3, date = (2000, 6), shrcd = Some 11, exchcd = Some 3,
      ret = Some (1 / 5), shrout = Some 10, prc = Some 8, dlret = Some 0,
      me = Some 80, lme = None\<rparr>]"
  by (simp add: merged_filled_def redefine_ret_def total_return_def set_me_def fillna_shrout_def
      fillna_prc_def fillna_ret_def ffill_exchcd_def ffill_shrcd_def fillna_dlret_def merge_outer_def
      merge_key_def merged_row_def clean_crsp_def clean_dlret_def MonthEnd_def fillna_def ffill_def
      nan_mul_def nan_add_def Let_def ex_crsp_def ex_dlret_def)

lemma ex_enriched:
  "enriched ex_crsp ex_dlret =
    [\<lparr>permno = 1, date = (2000, 1), shrcd = Some 10, exchcd = Some 1,
      ret = Some (1 / 20), shrout = Some 100, prc = Some 2, dlret = Some 0,
      me = Some 200, lme = None\<rparr>,
     \<lparr>permno = 1, date = (2000, 2), shrcd = Some 10, exchcd = Some 1,
      ret = Some (1 / 2), shrout = Some 100, prc = Some 3, dlret = Some 0,
      me = Some 300, lme = Some 200\<rparr>,
     \<lparr>permno = 1, date = (2000, 4), shrcd = Some 10, exchcd = Some 1,
      ret = Some (- (1 / 2)), shrout = Some 100, prc = Some 4,
      dlret = Some (- (1 / 2)), me = Some 400, lme = None\<rparr>,
     \<lparr>permno = 2, date = (2000, 1), shrcd = Some 10, exchcd = Some 2,
      ret = Some 0, shrout = Some 10, prc = Some 10, dlret = Some 0,
      me = Some 100, lme = None\<rparr>,
     \<lparr>permno = 2, date = (2000, 2), shrcd = Some 10, exchcd = Some 2,
      ret = Some (1 / 10), shrout = Some 10, prc = Some 11, dlret = Some 0,
      me = Some 110, lme = Some 100\<rparr>,
     \<lparr>permno = 2, date = (2000, 3), shrcd = Some 10, exchcd = Some 2,
      ret = Some 0, shrout = Some 0, prc = Some 0, dlret = Some 0,
      me = Some 0, lme = Some 110\<rparr>,
     \<lparr>permno = 3, date = (2000, 5), shrcd = Some 11, exchcd = Some 3,
      ret = Some (1 / 10), shrout = Some 10, prc = Some 7, dlret = Some 0,
      me = Some 70, lme = None\<rparr>,
     \<lparr>permno = 3, date = (2000, 6), shrcd = Some 11, exchcd = Some 3,
      ret = Some (1 / 5), shrout = Some 10, prc = Some 8, dlret = Some 0,
      me = Some 80, lme = Some 70\<rparr>]"
  by (simp add: enriched_def ex_merged attach_lme_def IsValidLag_def groupby_shift_def diff1_def
      daten_def sort_stocks_def)

lemma ex_panel:
  "analysis_panel ex_crsp ex_dlret =
    [\<lparr>p_permno = 1, p_year = 2000, p_month = 2, p_prc = 3, p_shrout = 100,
      p_lme = 200, p_ret = 1 / 2\<rparr>,
     \<lparr>p_permno = 2, p_year = 2000, p_month = 2, p_prc = 11, p_shrout = 10,
      p_lme = 100, p_ret = 1 / 10\<rparr>,
     \<lparr>p_permno = 2, p_year = 2000, p_month = 3, p_prc = 0, p_shrout = 0,
      p_lme = 110, p_ret = 0\<rparr>,
     \<lparr>p_permno = 3, p_year = 2000, p_month = 6, p_prc = 8, p_shrout = 10,
      p_lme = 70, p_ret = 1 / 5\<rparr>]"
  by (simp add: analysis_panel_def ex_enriched dropna_def filter_codes_def dropna_row_def)

lemma ex_french:
  "french_frame ex_c =
    [\<lparr>f_year = 2000, f_month = 1, f_mktrf = 1/100, f_rf = 1/200\<rparr>,
     \<lparr>f_year = 2000, f_month = 2, f_mktrf = 3/100, f_rf = 1/100\<rparr>,
     \<lparr>f_year = 2000, f_month = 3, f_mktrf = 1/100, f_rf = 1/200\<rparr>,
     \<lparr>f_year = 2000, f_month = 4, f_mktrf = 2/100, f_rf = 1/200\<rparr>]"
  by (simp add: french_frame_def ex_c_def MonthEnd_def)

lemma ex_date_keys:
  "date_keys (french_frame ex_c) (analysis_panel ex_crsp ex_dlret) = [(2000, 2), (2000, 3)]"
  by (simp add: ex_french ex_panel date_keys_def french_date_def stock_date_def)

lemma ex_monthly:
  "monthly_returns (french_frame ex_c) (analysis_panel ex_crsp ex_dlret) =
     Inr [\<lparr>m_year = 2000, m_month = 2, MktRF_VW = Fin (107 / 300),
           MktRF_EW = Fin (29 / 100), Lagged_Mkt_Value = 300\<rparr>,
          \<lparr>m_year = 2000, m_month = 3, MktRF_VW = Fin (- (1 / 200)),
           MktRF_EW = Fin (- (1 / 200)), Lagged_Mkt_Value = 110\<rparr>]"
  unfolding monthly_returns_def ex_date_keys
  by (simp add: ex_french ex_panel month_returns_def this_stocks_def iloc0_def float_div_def
      series_mean_def notna_def fval_sum_def fval_sub_def)

lemma ex_merge_outer:
  "merge_outer (clean_crsp ex_crsp) (clean_dlret ex_dlret) =
    [\<lparr>permno = 1, date = (2000, 1), shrcd = Some 10, exchcd = Some 1,
      ret = Some (1 / 20), shrout = Some 100, prc = Some 2, dlret = None,
      me = None, lme = None\<rparr>,
     \<lparr>permno = 1, date = (2000, 2), shrcd = Some 10, exchcd = Some 1,
      ret = Some (1 / 2), shrout = Some 100, prc = Some 3, dlret = None,
      me = None, lme = None\<rparr>,
     \<lparr>permno = 1, date = (2000, 4), shrcd = None, exchcd = None, ret = None,
      shrout = Some 100, prc = Some 4, dlret = Some (- (1 / 2)), me = None,
      lme = None\<rparr>,
     \<lparr>permno = 2, date = (2000, 1), shrcd = Some 10, exchcd = Some 2,
      ret = Some 0, shrout = Some 10, prc = Some 10, dlret = None, me = None,
      lme = None\<rparr>,
     \<lparr>permno = 2, date = (2000, 2), shrcd = Some 10, exchcd = Some 2,
      ret = Some (1 / 10), shrout = Some 10, prc = Some 11, dlret = None,
      me = None, lme = None\<rparr>,
     \<lparr>permno = 2, date = (2000, 3), shrcd = None, exchcd = None, ret = None,
      shrout = None, prc = None, dlret = None, me = None, lme = None\<rparr>,
     \<lparr>permno = 3, date = (2000, 5), shrcd = Some 11, exchcd = Some 3,
      ret = Some (1 / 10), shrout = Some 10, prc = Some 7, dlret = None,
      me = None, lme = None\<rparr>,
     \<lparr>permno = 3, date = (2000, 6), shrcd = Some 11, exchcd = Some 3,
      ret = Some (1 / 5), shrout = Some 10, prc = Some 8, dlret = None,
      me = None, lme = None\<rparr>]"
  by (simp add: merge_outer_def merge_key_def merged_row_def clean_crsp_def clean_dlret_def
      MonthEnd_def Let_def ex_crsp_def ex_dlret_def)

section \<open>Facts about the merged frame and the monthly loop\<close>

lemma nth_merged_filled:
  "i < length (merge_outer (clean_crsp crsp_raw) (clean_dlret dlret_raw)) \<Longrightarrow>
     merged_filled crsp_raw dlret_raw ! i
        = filled_row (merge_outer (clean_crsp crsp_raw) (clean_dlret dlret_raw) ! i)
            (ffill (map shrcd (merge_outer (clean_crsp crsp_raw) (clean_dlret dlret_raw))) ! i)
            (ffill (map exchcd (merge_outer (clean_crsp crsp_raw) (clean_dlret dlret_raw))) ! i)"
  by (simp add: merged_filled_rows Let_def length_ffill)

lemma ret_filled_row:
  "ret (filled_row r sc ec) = Some ((1 + or_zero (ret r)) * (1 + or_zero (dlret r)) - 1)"
  by (simp add: filled_row_def total_return_def nan_add_def nan_mul_def fillna_def or_zero_def
      split: option.splits)

lemma iloc0_filter:
  "iloc0 (map g (filter P xs)) =
     (case List.find P xs of None \<Rightarrow> Inl IndexError | Some x \<Rightarrow> Inr (g x))"
  by (induction xs) (simp_all add: iloc0_def)

lemma notna_Fin: "notna (map (\<lambda>x. Fin (g x)) xs) = map (\<lambda>x. Fin (g x)) xs"
  by (simp add: notna_def)

lemma foldl_fval_add_Fin:
  "foldl fval_add (Fin a) (map (\<lambda>x. Fin (g x)) xs) = Fin (a + sum_list (map g xs))"
  by (induction xs arbitrary: a) (simp_all add: add.assoc)

lemma fval_sum_Fin: "fval_sum (map (\<lambda>x. Fin (g x)) xs) = Fin (sum_list (map g xs))"
  by (simp add: fval_sum_def foldl_fval_add_Fin)

lemma series_mean_Fin:
  "series_mean (map (\<lambda>x. Fin (g x)) xs) =
     (if xs = [] then NaN else Fin (sum_list (map g xs) / real (length xs)))"
  by (simp add: series_mean_def notna_Fin fval_sum_Fin float_div_def)

lemma month_returns_eq:
  "month_returns french stocks k =
     (case List.find (\<lambda>f. f_year f = fst k \<and> f_month f = snd k) french of
        None \<Rightarrow> Inl IndexError
      | Some f \<Rightarrow>
          Inr \<lparr>m_year = fst k, m_month = snd k,
               MktRF_VW = fval_sub
                 (float_div ((\<Sum>p\<leftarrow>this_stocks stocks k. p_lme p * (1 + p_ret p))
                               - (\<Sum>p\<leftarrow>this_stocks stocks k. p_lme p))
                            (\<Sum>p\<leftarrow>this_stocks stocks k. p_lme p))
                 (Fin (f_rf f)),
               MktRF_EW = (if this_stocks stocks k = [] then NaN
                           else Fin ((\<Sum>p\<leftarrow>this_stocks stocks k. p_ret p)
                                        / real (length (this_stocks stocks k)) - f_rf f)),
               Lagged_Mkt_Value = (\<Sum>p\<leftarrow>this_stocks stocks k. p_lme p)\<rparr>)"
  by (simp add: month_returns_def iloc0_filter series_mean_Fin fval_sub_def Let_def
      split: option.splits)

lemma find_french_date:
  "k \<in> set (french_date french) \<Longrightarrow>
     \<exists>f. List.find (\<lambda>f. f_year f = fst k \<and> f_month f = snd k) french = Some f"
proof -
  assume "k \<in> set (french_date french)"
  then obtain f where "f \<in> set french" "f_year f = fst k \<and> f_month f = snd k"
    by (auto simp: french_date_def)
  then have "List.find (\<lambda>f. f_year f = fst k \<and> f_month f = snd k) french \<noteq> None"
    by (auto simp: find_None_iff)
  then show ?thesis by auto
qed

lemma month_returns_key:
  "month_returns french stocks k = Inr row \<Longrightarrow> (m_year row, m_month row) = k"
  by (auto simp: month_returns_eq split: option.splits)

lemma monthly_loop_Inr:
  "(\<forall>k\<in>set ks. \<exists>row. month_returns french stocks k = Inr row) \<Longrightarrow>
     monthly_loop french stocks ks acc
       = Inr (acc @ map (\<lambda>k. projr (month_returns french stocks k)) ks)"
  by (induction ks arbitrary: acc) auto

lemma monthly_loop_succeeds:
  "monthly_loop french stocks ks acc = Inr out \<Longrightarrow>
     \<forall>k\<in>set ks. \<exists>row. month_returns french stocks k = Inr row"
  by (induction ks arbitrary: acc) (auto split: sum.splits)

lemma set_date_keys:
  "set (date_keys french stocks) =
     set (map (\<lambda>f. (f_year f, f_month f)) french) \<inter> set (map (\<lambda>p. (p_year p, p_month p)) stocks)"
  by (auto simp: date_keys_def french_date_def stock_date_def)

lemma distinct_date_keys: "distinct (date_keys french stocks)"
  by (simp add: date_keys_def french_date_def)

lemma date_keys_succeed:
  "\<forall>k\<in>set (date_keys french stocks). \<exists>row. month_returns french stocks k = Inr row"
proof
  fix k assume "k \<in> set (date_keys french stocks)"
  then have "k \<in> set (french_date french)" by (simp add: date_keys_def)
  from find_french_date [OF this] show "\<exists>row. month_returns french stocks k = Inr row"
    by (auto simp: month_returns_eq)
qed

lemma monthly_returns_eq:
  "monthly_returns french stocks
     = Inr (map (\<lambda>k. projr (month_returns french stocks k)) (date_keys french stocks))"
  using monthly_loop_Inr [OF date_keys_succeed, of french stocks "[]"]
  by (simp add: monthly_returns_def)

lemma monthly_returns_keys:
  "monthly_returns french stocks = Inr out \<Longrightarrow>
     map (\<lambda>m. (m_year m, m_month m)) out = date_keys french stocks"
proof -
  assume "monthly_returns french stocks = Inr out"
  then have out: "out = map (\<lambda>k. projr (month_returns french stocks k)) (date_keys french stocks)"
    by (simp add: monthly_returns_eq)
  have "\<And>k. k \<in> set (date_keys french stocks) \<Longrightarrow>
           (m_year (projr (month_returns french stocks k)), m_month (projr (month_returns french stocks k))) = k"
    using date_keys_succeed month_returns_key by fastforce
  then show ?thesis
    unfolding out by (simp add: map_idI)
qed

lemma set_both:
  "set (both monthly french) =
      {(m, f). m \<in> set monthly \<and> f \<in> set french \<and> f_year f = m_year m \<and> f_month f = m_month m}"
  by (auto simp: both_def)

lemma both_keys:
  "set (map (\<lambda>x. (m_year (fst x), m_month (fst x))) (both monthly french))
     = set (map (\<lambda>m. (m_year m, m_month m)) monthly) \<inter> set (map (\<lambda>f. (f_year f, f_month f)) french)"
  (is "?L = ?R")
proof
  show "?L \<subseteq> ?R"
    by (auto simp: set_both) force
next
  show "?R \<subseteq> ?L"
  proof
    fix k assume "k \<in> ?R"
    then obtain m f where mf: "m \<in> set monthly" "f \<in> set french"
        "k = (m_year m, m_month m)" "k = (f_year f, f_month f)"
      by auto
    then have "(m, f) \<in> set (both monthly french)"
      by (simp add: set_both)
    then have "(m_year (fst (m, f)), m_month (fst (m, f))) \<in> ?L"
      unfolding set_map by (rule imageI)
    with mf show "k \<in> ?L" by simp
  qed
qed

section \<open>Signs and statistics\<close>

lemma clean_crsp_rows:
  assumes "l \<in> set (clean_crsp crsp_raw)"
  shows "(\<forall>p. c_prc l = Some p \<longrightarrow> 0 \<le> p)
       \<and> (\<forall>s. c_shrout l = Some s \<longrightarrow> (\<exists>a\<in>set crsp_raw. a_shrout a = Some s))"
  using assms by (auto simp: clean_crsp_def)

lemma merge_outer_rows:
  assumes "r \<in> set (merge_outer L R)"
  shows "(prc r = None \<or> (\<exists>l\<in>set L. prc r = c_prc l))
       \<and> (shrout r = None \<or> (\<exists>l\<in>set L. shrout r = c_shrout l))"
  using assms
  by (auto simp: merge_outer_def merge_key_def merged_row_def Let_def split: if_splits)

lemma merged_prc_nonneg:
  assumes "r \<in> set (merge_outer (clean_crsp crsp_raw) R)"
  shows "0 \<le> or_zero (prc r)"
proof (cases "prc r")
  case None
  then show ?thesis by (simp add: or_zero_def)
next
  case (Some p)
  with merge_outer_rows [OF assms] obtain l where "l \<in> set (clean_crsp crsp_raw)" "c_prc l = Some p"
    by auto
  with clean_crsp_rows [of l crsp_raw] have "0 \<le> p" by simp
  with Some show ?thesis by (simp add: or_zero_def)
qed

lemma merged_shrout_nonneg:
  assumes "r \<in> set (merge_outer (clean_crsp crsp_raw) R)" and "shares_nonneg crsp_raw"
  shows "0 \<le> or_zero (shrout r)"
proof (cases "shrout r")
  case None
  then show ?thesis by (simp add: or_zero_def)
next
  case (Some s)
  with merge_outer_rows [OF assms(1)] obtain l where "l \<in> set (clean_crsp crsp_raw)" "c_shrout l = Some s"
    by auto
  with clean_crsp_rows [of l crsp_raw] obtain a where "a \<in> set crsp_raw" "a_shrout a = Some s" by blast
  with assms(2) have "0 \<le> s" by (auto simp: shares_nonneg_def list_all_iff)
  with Some show ?thesis by (simp add: or_zero_def)
qed

lemma filled_row_value_ok:
  "0 \<le> or_zero (prc r) \<Longrightarrow> 0 \<le> or_zero (shrout r) \<Longrightarrow> value_ok (filled_row r sc ec)"
  by (simp add: value_ok_def filled_row_def fillna_def nan_mul_def or_zero_def split: option.splits)

lemma sorted_value_ok:
  assumes "shares_nonneg crsp_raw" and "r \<in> set (sort_stocks (merged_filled crsp_raw dlret_raw))"
  shows "value_ok r"
proof -
  from assms(2) have "r \<in> set (merged_filled crsp_raw dlret_raw)"
    by (simp add: sort_stocks_def)
  then obtain r0 sc ec where r0: "r0 \<in> set (merge_outer (clean_crsp crsp_raw) (clean_dlret dlret_raw))"
      and r: "r = filled_row r0 sc ec"
    using merged_filled_set by blast
  show ?thesis
    unfolding r
    using merged_prc_nonneg [OF r0] merged_shrout_nonneg [OF r0 assms(1)]
    by (rule filled_row_value_ok)
qed

lemma enriched_rows:
  assumes "shares_nonneg crsp_raw" and "r \<in> set (enriched crsp_raw dlret_raw)"
  shows "value_ok r \<and> (\<forall>l. lme r = Some l \<longrightarrow> 0 \<le> l)"
proof -
  define S where "S = sort_stocks (merged_filled crsp_raw dlret_raw)"
  have ok: "\<And>x. x \<in> set S \<Longrightarrow> value_ok x"
    unfolding S_def using assms(1) by (rule sorted_value_ok)
  from assms(2) have "r \<in> set (attach_lme S)" by (simp add: enriched_def S_def)
  then obtain i where i: "i < length S" and r: "r = attach_lme S ! i"
    by (auto simp: in_set_conv_nth length_attach_lme)
  from i have here: "value_ok (S ! i)" by (simp add: ok)
  from i have "i - 1 < length S" by simp
  then have prev: "value_ok (S ! (i - 1))" by (simp add: ok)
  from here have "value_ok r"
    unfolding r nth_attach_lme [OF i] by (simp add: value_ok_def)
  moreover from prev have "\<forall>l. lme r = Some l \<longrightarrow> 0 \<le> l"
    unfolding r nth_attach_lme [OF i] by (auto simp: value_ok_def split: if_splits)
  ultimately show ?thesis by simp
qed

lemma panel_rows:
  assumes "p \<in> set (analysis_panel crsp_raw dlret_raw)"
  shows "\<exists>r\<in>set (enriched crsp_raw dlret_raw). lme r = Some (p_lme p)"
proof -
  from assms obtain r where "r \<in> set (filter_codes (enriched crsp_raw dlret_raw))"
      and "dropna_row r = Some p"
    by (auto simp: analysis_panel_def dropna_def List.map_filter_def)
  then show ?thesis
    by (auto simp: filter_codes_def dropna_row_def split: option.splits)
qed

lemma panel_lme_nonneg:
  assumes "shares_nonneg crsp_raw" and "p \<in> set (analysis_panel crsp_raw dlret_raw)"
  shows "0 \<le> p_lme p"
  using panel_rows [OF assms(2)] enriched_rows [OF assms(1)] by blast

lemmas cell9_defs = enriched_def attach_lme_def IsValidLag_def groupby_shift_def diff1_def daten_def
  sort_stocks_def merged_filled_def redefine_ret_def total_return_def set_me_def fillna_shrout_def
  fillna_prc_def fillna_ret_def ffill_exchcd_def ffill_shrcd_def fillna_dlret_def merge_outer_def
  merge_key_def merged_row_def clean_crsp_def clean_dlret_def MonthEnd_def fillna_def ffill_def
  nan_mul_def nan_add_def Let_def analysis_panel_def dropna_def filter_codes_def dropna_row_def

lemmas cell11_defs = monthly_returns_def date_keys_def french_date_def stock_date_def
  month_returns_def this_stocks_def iloc0_def float_div_def series_mean_def notna_def
  fval_sum_def fval_sub_def

lemma monthly_row_facts:
  "monthly_returns french stocks = Inr out \<Longrightarrow> row \<in> set out \<Longrightarrow>
     (let rows = this_stocks stocks (m_year row, m_month row);
          total_lme = (\<Sum>p\<leftarrow>rows. p_lme p)
      in rows \<noteq> []
       \<and> (\<exists>f. List.find (\<lambda>f. f_year f = m_year row \<and> f_month f = m_month row) french = Some f
            \<and> Lagged_Mkt_Value row = total_lme
            \<and> MktRF_VW row =
                (if total_lme \<noteq> 0
                 then Fin (((\<Sum>p\<leftarrow>rows. p_lme p * (1 + p_ret p)) - total_lme) / total_lme - f_rf f)
                 else if (\<Sum>p\<leftarrow>rows. p_lme p * (1 + p_ret p)) = 0 then NaN
                 else if 0 < (\<Sum>p\<leftarrow>rows. p_lme p * (1 + p_ret p)) then PInf else NInf)
            \<and> MktRF_EW row = Fin ((\<Sum>p\<leftarrow>rows. p_ret p) / real (length rows) - f_rf f)))"
proof -
  assume out: "monthly_returns french stocks = Inr out" and row: "row \<in> set out"
  from out have "out = map (\<lambda>k. projr (month_returns french stocks k)) (date_keys french stocks)"
    by (simp add: monthly_returns_eq)
  with row obtain k where k: "k \<in> set (date_keys french stocks)"
      and r: "row = projr (month_returns french stocks k)"
    by auto
  from k date_keys_succeed have ok: "month_returns french stocks k = Inr row"
    using r by fastforce
  then have key: "k = (m_year row, m_month row)"
    by (simp add: month_returns_key)
  from k have "k \<in> set (map (\<lambda>p. (p_year p, p_month p)) stocks)"
    by (simp add: set_date_keys)
  then have ne: "this_stocks stocks k \<noteq> []"
    by (auto simp: this_stocks_def filter_empty_conv)
  from ok obtain f where f: "List.find (\<lambda>f. f_year f = fst k \<and> f_month f = snd k) french = Some f"
    by (auto simp: month_returns_eq split: option.splits)
  with ok ne show ?thesis
    unfolding Let_def key [symmetric]
    by (auto simp: month_returns_eq float_div_def fval_sub_def)
qed

lemma sum_list_zero_weights:
  fixes w g :: "'a \<Rightarrow> real"
  shows "(\<forall>x\<in>set xs. w x = 0) \<Longrightarrow> (\<Sum>x\<leftarrow>xs. w x * g x) = 0"
  by (induction xs) simp_all

lemma total_lme_facts:
  assumes "shares_nonneg crsp_raw"
    and "monthly_returns french (analysis_panel crsp_raw dlret_raw) = Inr out"
    and "row \<in> set out"
  shows "this_stocks (analysis_panel crsp_raw dlret_raw) (m_year row, m_month row) \<noteq> []"
    and "0 \<le> Lagged_Mkt_Value row"
    and "Lagged_Mkt_Value row \<noteq> 0 \<longleftrightarrow>
          (\<exists>p\<in>set (this_stocks (analysis_panel crsp_raw dlret_raw) (m_year row, m_month row)). 0 < p_lme p)"
    and "MktRF_VW row = NaN \<longleftrightarrow> Lagged_Mkt_Value row = 0"
    and "(\<exists>v. MktRF_VW row = Fin v) \<longleftrightarrow> Lagged_Mkt_Value row \<noteq> 0"
proof -
  let ?rows = "this_stocks (analysis_panel crsp_raw dlret_raw) (m_year row, m_month row)"
  let ?end = "\<Sum>p\<leftarrow>?rows. p_lme p * (1 + p_ret p)"
  have facts: "?rows \<noteq> []" "Lagged_Mkt_Value row = (\<Sum>p\<leftarrow>?rows. p_lme p)"
      "(\<Sum>p\<leftarrow>?rows. p_lme p) \<noteq> 0 \<Longrightarrow> \<exists>v. MktRF_VW row = Fin v"
      "(\<Sum>p\<leftarrow>?rows. p_lme p) = 0 \<Longrightarrow> ?end = 0 \<Longrightarrow> MktRF_VW row = NaN"
    using monthly_row_facts [OF assms(2,3)] by (auto simp: Let_def split: if_splits)
  have nonneg: "\<And>x. x \<in> set (map p_lme ?rows) \<Longrightarrow> 0 \<le> x"
    using panel_lme_nonneg [OF assms(1)] by (auto simp: this_stocks_def)
  show "?rows \<noteq> []" by (rule facts)
  show "0 \<le> Lagged_Mkt_Value row"
    unfolding facts(2) using nonneg by (rule sum_list_nonneg)
  have zero: "(\<Sum>p\<leftarrow>?rows. p_lme p) = 0 \<longleftrightarrow> (\<forall>x\<in>set (map p_lme ?rows). x = 0)"
    using nonneg by (rule sum_list_nonneg_eq_0_iff)
  then show "Lagged_Mkt_Value row \<noteq> 0 \<longleftrightarrow> (\<exists>p\<in>set ?rows. 0 < p_lme p)"
    unfolding facts(2) using nonneg by (auto simp: less_le)
  have nan: "MktRF_VW row = NaN" if "(\<Sum>p\<leftarrow>?rows. p_lme p) = 0"
  proof -
    from that zero have "\<forall>p\<in>set ?rows. p_lme p = 0" by simp
    then have "?end = 0" by (rule sum_list_zero_weights)
    with that show ?thesis by (rule facts(4))
  qed
  show "MktRF_VW row = NaN \<longleftrightarrow> Lagged_Mkt_Value row = 0"
    unfolding facts(2) using nan facts(3) by fastforce
  show "(\<exists>v. MktRF_VW row = Fin v) \<longleftrightarrow> Lagged_Mkt_Value row \<noteq> 0"
    unfolding facts(2) using nan facts(3) by fastforce
qed

lemma sum_sq_commute:
  fixes a :: real
  shows "(\<Sum>x\<leftarrow>xs. (a - x)\<^sup>2) = (\<Sum>x\<leftarrow>xs. (x - a)\<^sup>2)"
  by (simp add: power2_commute [of a])

lemma fval_sum_snoc: "fval_sum (vs @ [v]) = fval_add (fval_sum vs) v"
  by (simp add: fval_sum_def)

lemma finite_entries_snoc:
  "finite_entries (vs @ [v]) = finite_entries vs @ (case v of Fin x \<Rightarrow> [x] | _ \<Rightarrow> [])"
  by (simp add: finite_entries_def List.map_filter_def split: fval.splits)

lemma fval_sum_NaN: "NaN \<in> set vs \<Longrightarrow> fval_sum vs = NaN"
proof (induction vs rule: rev_induct)
  case Nil
  then show ?case by simp
next
  case (snoc v vs)
  then show ?case
    by (cases v; cases "fval_sum vs") (auto simp: fval_sum_snoc)
qed

lemma fval_sum_notna:
  "NaN \<notin> set vs \<Longrightarrow>
     fval_sum vs =
       (if PInf \<in> set vs \<and> NInf \<in> set vs then NaN
        else if PInf \<in> set vs then PInf
        else if NInf \<in> set vs then NInf
        else Fin (sum_list (finite_entries vs)))"
proof (induction vs rule: rev_induct)
  case Nil
  then show ?case by (simp add: fval_sum_def finite_entries_def)
next
  case (snoc v vs)
  then show ?case
    by (cases v) (auto simp: fval_sum_snoc finite_entries_snoc)
qed

lemma notna_finite:
  "PInf \<notin> set xs \<Longrightarrow> NInf \<notin> set xs \<Longrightarrow> notna xs = map Fin (finite_entries xs)"
proof (induction xs)
  case Nil
  then show ?case by (simp add: notna_def finite_entries_def)
next
  case (Cons v xs)
  then show ?case
    by (cases v) (auto simp: notna_def finite_entries_def)
qed

lemma finite_entries_Fin: "finite_entries (map (\<lambda>x. Fin (g x)) xs) = map g xs"
  by (induction xs) (simp_all add: finite_entries_def)

lemma series_mean_finite:
  assumes "PInf \<notin> set xs" "NInf \<notin> set xs"
  shows "series_mean xs =
     (if finite_entries xs = [] then NaN else Fin (mean (finite_entries xs)))"
proof -
  have "series_mean xs = series_mean (map (\<lambda>x. Fin x) (finite_entries xs))"
    by (simp add: series_mean_def notna_finite [OF assms] notna_Fin)
  then show ?thesis
    by (simp add: series_mean_Fin mean_def)
qed

lemma series_std_finite:
  assumes "PInf \<notin> set xs" "NInf \<notin> set xs"
  shows "series_std xs =
     (if length (finite_entries xs) \<le> 1 then NaN
      else Fin (sqrt (sample_variance (finite_entries xs))))"
proof (cases "length (finite_entries xs) \<le> 1")
  case True
  then show ?thesis
    by (simp add: series_std_def notna_finite [OF assms] Let_def)
next
  case False
  let ?ys = "finite_entries xs"
  let ?a = "sum_list ?ys / real (length ?ys)"
  from False have n: "real (length ?ys) - 1 > 0" by simp
  from False have ne: "?ys \<noteq> []" by auto
  have avg: "fval_div (fval_sum (map Fin ?ys)) (Fin (real (length ?ys))) = Fin ?a"
    using ne fval_sum_Fin [of "\<lambda>x. x" ?ys] by (simp add: float_div_def)
  have sqr: "map ((\<lambda>v. fval_mul (fval_sub (Fin ?a) v) (fval_sub (Fin ?a) v)) \<circ> Fin) ?ys
      = map (\<lambda>y. Fin ((?a - y)\<^sup>2)) ?ys"
    by (simp add: fval_sub_def power2_eq_square)
  have nonneg: "0 \<le> (\<Sum>y\<leftarrow>?ys. (?a - y)\<^sup>2) / (real (length ?ys) - 1)"
    using n by (intro divide_nonneg_pos sum_list_nonneg) auto
  have "series_std xs = Fin (sqrt ((\<Sum>y\<leftarrow>?ys. (?a - y)\<^sup>2) / (real (length ?ys) - 1)))"
    using False n nonneg ne
    by (simp add: series_std_def notna_finite [OF assms] Let_def avg sqr fval_sum_Fin float_div_def)
  with False show ?thesis
    by (simp add: sample_variance_def mean_def sum_sq_commute)
qed

lemma notna_sets:
  "NaN \<notin> set (notna xs)" "PInf \<in> set (notna xs) \<longleftrightarrow> PInf \<in> set xs"
  "NInf \<in> set (notna xs) \<longleftrightarrow> NInf \<in> set xs"
  by (auto simp: notna_def)

lemma series_mean_infinite:
  assumes "PInf \<in> set xs \<or> NInf \<in> set xs"
  shows "series_mean xs =
     (if PInf \<in> set xs \<and> NInf \<in> set xs then NaN else if PInf \<in> set xs then PInf else NInf)"
proof -
  from assms have ne: "notna xs \<noteq> []"
    using notna_sets(2,3) [of xs] by auto
  show ?thesis
    using assms ne by (auto simp: series_mean_def Let_def fval_sum_notna notna_sets)
qed

lemma series_std_infinite:
  assumes "PInf \<in> set xs \<or> NInf \<in> set xs"
  shows "series_std xs = NaN"
proof (cases "length (notna xs) \<le> 1")
  case True
  then show ?thesis by (simp add: series_std_def Let_def)
next
  case False
  let ?vs = "notna xs"
  let ?avg = "fval_div (fval_sum ?vs) (Fin (real (length ?vs)))"
  let ?sqr = "map (\<lambda>v. fval_mul (fval_sub ?avg v) (fval_sub ?avg v)) ?vs"
  from False have ne: "?vs \<noteq> []" by auto
  have avg: "?avg = (if PInf \<in> set xs \<and> NInf \<in> set xs then NaN else if PInf \<in> set xs then PInf else NInf)"
    using assms by (auto simp: fval_sum_notna notna_sets)
  have "\<exists>v\<in>set ?vs. fval_mul (fval_sub ?avg v) (fval_sub ?avg v) = NaN"
  proof (cases "PInf \<in> set xs \<and> NInf \<in> set xs")
    case True
    with avg ne show ?thesis by (cases ?vs) (auto simp: fval_sub_def)
  next
    case False
    show ?thesis
    proof (cases "PInf \<in> set xs")
      case True
      with False avg have "?avg = PInf" by simp
      moreover from True have "PInf \<in> set ?vs" by (simp add: notna_sets)
      ultimately show ?thesis by (force simp: fval_sub_def)
    next
      case n: False
      with assms avg have "?avg = NInf" "NInf \<in> set ?vs" by (auto simp: notna_sets)
      then show ?thesis by (force simp: fval_sub_def)
    qed
  qed
  then have "NaN \<in> set ?sqr" by force
  then have "fval_sum ?sqr = NaN" by (rule fval_sum_NaN)
  with False show ?thesis
    by (simp add: series_std_def Let_def)
qed

lemma stat_both_series:
  "map (\<lambda>x. f_mktrf (snd x)) stat_both = [1/100, - 2/100, 3/100, 0, 15/1000]"
  "col_MktRF_VW stat_both = [Fin (1/100), NaN, Fin (3/100), Fin (- 1/100), Fin (1/100)]"
  "finite_entries [Fin (1/100), NaN, Fin (3/100), Fin (- 1/100), Fin (1/100)]
     = [1/100, 3/100, - 1/100, 1/100]"
  "col_MktRF_VW stat_inf = [Fin (1/100), NInf, Fin (3/100), Fin (- 1/100), Fin (1/100)]"
  by (simp_all add: stat_both_def stat_inf_def col_MktRF_VW_def finite_entries_def)

lemma stat_values:
  "mean [1/100, - 2/100, 3/100, 0, 15/1000] = 7/1000"
  "sample_variance [1/100, - 2/100, 3/100, 0, 15/1000] = 69/200000"
  "population_variance [1/100, - 2/100, 3/100, 0, 15/1000] = 69/250000"
  "mean [1/100, 3/100, - 1/100, 1/100] = 1/100"
  "sample_variance [1/100, 3/100, - 1/100, 1/100] = 1/3750"
  by (simp_all add: mean_def sample_variance_def population_variance_def power2_eq_square)

lemma cancel_monthly:
  "monthly_returns (french_frame ex_c) (analysis_panel cancel_crsp [])
     = Inr [\<lparr>m_year = 2000, m_month = 2, MktRF_VW = NInf, MktRF_EW = Fin (29 / 100),
             Lagged_Mkt_Value = 0\<rparr>,
            \<lparr>m_year = 2000, m_month = 3, MktRF_VW = Fin (- (1 / 200)), MktRF_EW = Fin (- (1 / 200)),
             Lagged_Mkt_Value = 10\<rparr>]"
  by (simp add: ex_french cell9_defs cell11_defs cancel_crsp_def)

lemma cancel_both:
  "col_MktRF_VW (both [\<lparr>m_year = 2000, m_month = 2, MktRF_VW = NInf, MktRF_EW = Fin (29 / 100),
             Lagged_Mkt_Value = 0\<rparr>,
            \<lparr>m_year = 2000, m_month = 3, MktRF_VW = Fin (- (1 / 200)), MktRF_EW = Fin (- (1 / 200)),
             Lagged_Mkt_Value = 10\<rparr>] (french_frame ex_c)) = [NInf, Fin (- (1 / 200))]"
  by (simp add: ex_french both_def col_MktRF_VW_def)

lemma ex_shares_nonneg: "shares_nonneg ex_crsp"
  by (simp add: shares_nonneg_def ex_crsp_def)

lemma ex_this_stocks:
  "map p_lme (this_stocks (analysis_panel ex_crsp ex_dlret) (2000, 2)) = [200, 100]"
  by (simp add: ex_panel this_stocks_def)

lemma ex_first_row:
  "\<lparr>m_year = 2000, m_month = 2, MktRF_VW = Fin (107 / 300),
     MktRF_EW = Fin (29 / 100), Lagged_Mkt_Value = 300\<rparr>
      \<in> set [\<lparr>m_year = 2000, m_month = 2, MktRF_VW = Fin (107 / 300),
             MktRF_EW = Fin (29 / 100), Lagged_Mkt_Value = 300\<rparr>,
            \<lparr>m_year = 2000, m_month = 3, MktRF_VW = Fin (- (1 / 200)),
             MktRF_EW = Fin (- (1 / 200)), Lagged_Mkt_Value = 110\<rparr>]"
  by simp

section \<open>Rounding to the nearest binary64 number\<close>

























section \<open>The binary64 operations\<close>






















section \<open>Sums in binary64\<close>



















section \<open>Lagged market value\<close>

text \<open>
  C1. The enriched panel is sorted by (security id, date). For each of its rows, the
  lagged market value is defined if and only if the row has a predecessor, that
  predecessor has the same security id, and its month index year * 12 + month is one
  less. When defined, it is the market value of that predecessor. The first row of the
  panel and the first row of every security have no lagged market value.
\<close>

theorem lagged_market_value_defined_iff:
  "i < length (enriched crsp_raw dlret_raw) \<Longrightarrow>
     (let E = enriched crsp_raw dlret_raw in
        sorted (map (\<lambda>r. (permno r, date r)) E)
      \<and> (lme (E ! i) \<noteq> None \<longleftrightarrow>
           0 < i \<and> permno (E ! (i - 1)) = permno (E ! i) \<and> daten (E ! (i - 1)) = daten (E ! i) - 1)
      \<and> (lme (E ! i) \<noteq> None \<longrightarrow> lme (E ! i) = me (E ! (i - 1)))
      \<and> (i = 0 \<or> permno (E ! (i - 1)) \<noteq> permno (E ! i) \<longrightarrow> lme (E ! i) = None))"
proof -
  assume len: "i < length (enriched crsp_raw dlret_raw)"
  define S where "S = sort_stocks (merged_filled crsp_raw dlret_raw)"
  have E: "enriched crsp_raw dlret_raw = attach_lme S"
    by (simp add: enriched_def S_def)
  from len have i: "i < length S" "i - 1 < length S"
    by (simp_all add: E length_attach_lme)
  then have "S ! (i - 1) \<in> set S" by simp
  then have prev: "me (S ! (i - 1)) \<noteq> None"
    unfolding S_def by (rule me_defined)
  have cols: "permno (attach_lme S ! i) = permno (S ! i)"
    "permno (attach_lme S ! (i - 1)) = permno (S ! (i - 1))"
    "daten (attach_lme S ! i) = daten (S ! i)"
    "daten (attach_lme S ! (i - 1)) = daten (S ! (i - 1))"
    "me (attach_lme S ! (i - 1)) = me (S ! (i - 1))"
    using i by (simp_all add: nth_attach_lme daten_def)
  have l: "lme (attach_lme S ! i) =
     (if 0 < i \<and> permno (S ! i) = permno (S ! (i - 1)) \<and> daten (S ! i) - daten (S ! (i - 1)) = 1
      then me (S ! (i - 1)) else None)"
    using i by (simp add: nth_attach_lme)
  have srt: "sorted (map (\<lambda>r. (permno r, date r)) (attach_lme S))"
    using sorted_enriched [of crsp_raw dlret_raw] by (simp add: E)
  show ?thesis
    unfolding Let_def E cols l using prev srt by auto
qed

theorem lagged_market_value_defined_iff_witness:
  "3 < length (enriched ex_crsp ex_dlret)
   \<and> lme (enriched ex_crsp ex_dlret ! 1) = me (enriched ex_crsp ex_dlret ! 0)
   \<and> lme (enriched ex_crsp ex_dlret ! 1) = Some 200
   \<and> permno (enriched ex_crsp ex_dlret ! 2) = permno (enriched ex_crsp ex_dlret ! 1)
   \<and> daten (enriched ex_crsp ex_dlret ! 2) = daten (enriched ex_crsp ex_dlret ! 1) + 2
   \<and> lme (enriched ex_crsp ex_dlret ! 2) = None
   \<and> permno (enriched ex_crsp ex_dlret ! 3) \<noteq> permno (enriched ex_crsp ex_dlret ! 2)
   \<and> lme (enriched ex_crsp ex_dlret ! 3) = None"
proof -
  have len: "1 < length (enriched ex_crsp ex_dlret)" "2 < length (enriched ex_crsp ex_dlret)"
      "3 < length (enriched ex_crsp ex_dlret)"
    by (simp_all add: ex_enriched)
  show ?thesis
    using len lagged_market_value_defined_iff [OF len(1)] lagged_market_value_defined_iff [OF len(2)]
      lagged_market_value_defined_iff [OF len(3)]
    by (simp add: ex_enriched Let_def daten_def)
qed

section \<open>Forward fill of the codes\<close>

text \<open>
  C2. The claim: a missing share class or exchange code is filled from the most recent
  prior row of the same security, and never from another security. The fill is
  \<^verbatim>\<open>stocks['shrcd'].ffill()\<close> on the whole merged frame, without grouping: on the
  input \<open>ffill_crsp\<close> the row of security 2, whose codes are missing, receives the codes
  10 and 1 of security 1.
\<close>

theorem ffill_takes_code_of_other_security:
  "map (\<lambda>r. (permno r, shrcd r, exchcd r)) (merged_filled ffill_crsp [])
     = [(1, Some 10, Some 1), (2, Some 10, Some 1)]
   \<and> map (\<lambda>r. (a_permno r, a_shrcd r, a_exchcd r)) ffill_crsp
     = [(1, Some 10, Some 1), (2, None, None)]"
  by (simp add: merged_filled_def redefine_ret_def total_return_def set_me_def fillna_shrout_def
      fillna_prc_def fillna_ret_def ffill_exchcd_def ffill_shrcd_def fillna_dlret_def merge_outer_def
      merge_key_def merged_row_def clean_crsp_def clean_dlret_def MonthEnd_def fillna_def ffill_def
      nan_mul_def nan_add_def Let_def ffill_crsp_def)

section \<open>Total return\<close>




section \<open>The monthly formulas\<close>

text \<open>
  C4. Every row of the aggregated output belongs to a month with at least one panel row
  and a reference row. With the sums and the mean taken over exactly the panel rows of
  that month and the risk-free rate of the (first) reference row of that month: the
  lagged market value column is the sum of the lagged market values; the value-weighted
  excess return is (sum of lme * (1 + ret) - sum of lme) / sum of lme - rf, which is an
  infinity or NaN when the sum of lme is 0; the equal-weighted excess return is the
  arithmetic mean of ret minus rf.
\<close>

theorem monthly_return_formulas:
  "monthly_returns french stocks = Inr out \<Longrightarrow> row \<in> set out \<Longrightarrow>
     (let rows = this_stocks stocks (m_year row, m_month row);
          total_lme = (\<Sum>p\<leftarrow>rows. p_lme p)
      in rows \<noteq> []
       \<and> (\<exists>f. List.find (\<lambda>f. f_year f = m_year row \<and> f_month f = m_month row) french = Some f
            \<and> Lagged_Mkt_Value row = total_lme
            \<and> MktRF_VW row =
                (if total_lme \<noteq> 0
                 then Fin (((\<Sum>p\<leftarrow>rows. p_lme p * (1 + p_ret p)) - total_lme) / total_lme - f_rf f)
                 else if (\<Sum>p\<leftarrow>rows. p_lme p * (1 + p_ret p)) = 0 then NaN
                 else if 0 < (\<Sum>p\<leftarrow>rows. p_lme p * (1 + p_ret p)) then PInf else NInf)
            \<and> MktRF_EW row = Fin ((\<Sum>p\<leftarrow>rows. p_ret p) / real (length rows) - f_rf f)))"
  by (rule monthly_row_facts)

theorem monthly_return_formulas_witness:
  "monthly_returns (french_frame ex_c) (analysis_panel ex_crsp ex_dlret)
     = Inr [\<lparr>m_year = 2000, m_month = 2, MktRF_VW = Fin (107 / 300),
             MktRF_EW = Fin (29 / 100), Lagged_Mkt_Value = 300\<rparr>,
            \<lparr>m_year = 2000, m_month = 3, MktRF_VW = Fin (- (1 / 200)),
             MktRF_EW = Fin (- (1 / 200)), Lagged_Mkt_Value = 110\<rparr>]
   \<and> map p_permno (this_stocks (analysis_panel ex_crsp ex_dlret) (2000, 2)) = [1, 2]
   \<and> (107 / 300 :: real) = ((200 * (1 + 1/2) + 100 * (1 + 1/10)) - (200 + 100)) / (200 + 100) - 1/100
   \<and> (29 / 100 :: real) = (1/2 + 1/10) / 2 - 1/100"
proof -
  have m: "\<lparr>m_year = 2000, m_month = 2, MktRF_VW = Fin (107 / 300),
             MktRF_EW = Fin (29 / 100), Lagged_Mkt_Value = 300\<rparr>
      \<in> set [\<lparr>m_year = 2000, m_month = 2, MktRF_VW = Fin (107 / 300),
             MktRF_EW = Fin (29 / 100), Lagged_Mkt_Value = 300\<rparr>,
            \<lparr>m_year = 2000, m_month = 3, MktRF_VW = Fin (- (1 / 200)),
             MktRF_EW = Fin (- (1 / 200)), Lagged_Mkt_Value = 110\<rparr>]"
    by simp
  have t: "map p_permno (this_stocks (analysis_panel ex_crsp ex_dlret) (2000, 2)) = [1, 2]"
    by (simp add: ex_panel this_stocks_def)
  note monthly_return_formulas [OF ex_monthly m]
  with t show ?thesis
    by (simp add: ex_monthly)
qed

section \<open>The months of the output\<close>

text \<open>
  C5. The aggregation raises no error. Its output has exactly one row per (year, month)
  that occurs both in the analysis panel and in the reference series, and the compared
  frame has exactly these months too: a month of only one input appears in neither.
\<close>

theorem one_row_per_common_month:
  "\<exists>out. monthly_returns french stocks = Inr out
      \<and> distinct (map (\<lambda>m. (m_year m, m_month m)) out)
      \<and> set (map (\<lambda>m. (m_year m, m_month m)) out)
          = set (map (\<lambda>f. (f_year f, f_month f)) french)
              \<inter> set (map (\<lambda>p. (p_year p, p_month p)) stocks)
      \<and> set (map (\<lambda>x. (m_year (fst x), m_month (fst x))) (both out french))
          = set (map (\<lambda>f. (f_year f, f_month f)) french)
              \<inter> set (map (\<lambda>p. (p_year p, p_month p)) stocks)"
proof -
  obtain out where out: "monthly_returns french stocks = Inr out"
    by (simp add: monthly_returns_eq)
  have keys: "map (\<lambda>m. (m_year m, m_month m)) out = date_keys french stocks"
    using out by (rule monthly_returns_keys)
  have "set (map (\<lambda>x. (m_year (fst x), m_month (fst x))) (both out french))
      = set (date_keys french stocks) \<inter> set (map (\<lambda>f. (f_year f, f_month f)) french)"
    unfolding both_keys keys ..
  then have "set (map (\<lambda>x. (m_year (fst x), m_month (fst x))) (both out french))
      = set (map (\<lambda>f. (f_year f, f_month f)) french)
              \<inter> set (map (\<lambda>p. (p_year p, p_month p)) stocks)"
    unfolding set_date_keys by blast
  moreover have "distinct (map (\<lambda>m. (m_year m, m_month m)) out)"
    unfolding keys by (rule distinct_date_keys)
  moreover have "set (map (\<lambda>m. (m_year m, m_month m)) out)
          = set (map (\<lambda>f. (f_year f, f_month f)) french)
              \<inter> set (map (\<lambda>p. (p_year p, p_month p)) stocks)"
    unfolding keys by (rule set_date_keys)
  ultimately show ?thesis
    using out by blast
qed

theorem one_row_per_common_month_witness:
  "\<exists>out. monthly_returns (french_frame ex_c) (analysis_panel ex_crsp ex_dlret) = Inr out
      \<and> map (\<lambda>m. (m_year m, m_month m)) out = [(2000, 2), (2000, 3)]
      \<and> set (map (\<lambda>f. (f_year f, f_month f)) (french_frame ex_c))
          = {(2000, 1), (2000, 2), (2000, 3), (2000, 4)}
      \<and> set (map (\<lambda>p. (p_year p, p_month p)) (analysis_panel ex_crsp ex_dlret))
          = {(2000, 2), (2000, 3), (2000, 6)}"
proof -
  have f: "set (map (\<lambda>f. (f_year f, f_month f)) (french_frame ex_c))
          = {(2000, 1), (2000, 2), (2000, 3), (2000, 4)}"
    by (simp add: ex_french)
  have p: "set (map (\<lambda>p. (p_year p, p_month p)) (analysis_panel ex_crsp ex_dlret))
          = {(2000, 2), (2000, 3), (2000, 6)}"
    by (simp add: ex_panel)
  from one_row_per_common_month [of "french_frame ex_c" "analysis_panel ex_crsp ex_dlret"]
  obtain out where out: "monthly_returns (french_frame ex_c) (analysis_panel ex_crsp ex_dlret) = Inr out"
    by blast
  then have "map (\<lambda>m. (m_year m, m_month m)) out = [(2000, 2), (2000, 3)]"
    by (auto simp: ex_monthly)
  with out f p show ?thesis by simp
qed

section \<open>The code filter\<close>

text \<open>
  C6. Filtering for share class 10 or 11 and exchange 1, 2 or 3 is idempotent: applied to
  an already filtered frame it returns that frame.
\<close>

theorem filter_codes_idempotent:
  "filter_codes (filter_codes stocks) = filter_codes stocks"
  by (simp add: filter_codes_def)

theorem filter_codes_idempotent_witness:
  "filter_codes (filter_codes (enriched ex_crsp ex_dlret)) = enriched ex_crsp ex_dlret"
  using filter_codes_idempotent [of "enriched ex_crsp ex_dlret"]
  by (simp add: ex_enriched filter_codes_def)

section \<open>The total lagged market value of a month\<close>

text \<open>
  C7, the claim as stated: the sum of the lagged market values of a retained month is
  never zero. It fails: in \<open>no_price_crsp\<close> the January price is missing, \<^verbatim>\<open>fillna(0)\<close>
  makes the January market value 0, and February is retained with a total lagged market
  value of 0 and a value-weighted return that is NaN.
\<close>

theorem zero_total_lagged_value:
  "monthly_returns (french_frame ex_c) (analysis_panel no_price_crsp [])
     = Inr [\<lparr>m_year = 2000, m_month = 2, MktRF_VW = NaN, MktRF_EW = Fin (49 / 100),
             Lagged_Mkt_Value = 0\<rparr>]"
  by (simp add: ex_french cell9_defs cell11_defs no_price_crsp_def)

text \<open>
  C7, amended. With nonnegative shares outstanding in the raw table, every retained month
  has at least one constituent; its total lagged market value is nonzero if and only if
  some constituent has a positive lagged market value; and the value-weighted return
  is NaN, the result of 0/0, exactly when the total is zero, and a finite number
  otherwise.
\<close>

theorem total_lagged_value_nonzero_iff:
  "shares_nonneg crsp_raw \<Longrightarrow>
   monthly_returns french (analysis_panel crsp_raw dlret_raw) = Inr out \<Longrightarrow> row \<in> set out \<Longrightarrow>
     (let rows = this_stocks (analysis_panel crsp_raw dlret_raw) (m_year row, m_month row)
      in rows \<noteq> []
       \<and> (Lagged_Mkt_Value row \<noteq> 0 \<longleftrightarrow> (\<exists>p\<in>set rows. 0 < p_lme p))
       \<and> (MktRF_VW row = NaN \<longleftrightarrow> Lagged_Mkt_Value row = 0)
       \<and> ((\<exists>v. MktRF_VW row = Fin v) \<longleftrightarrow> Lagged_Mkt_Value row \<noteq> 0))"
  unfolding Let_def
  by (intro conjI; (rule total_lme_facts; assumption))

theorem total_lagged_value_nonzero_iff_witness:
  "shares_nonneg ex_crsp
   \<and> monthly_returns (french_frame ex_c) (analysis_panel ex_crsp ex_dlret)
       = Inr [\<lparr>m_year = 2000, m_month = 2, MktRF_VW = Fin (107 / 300),
               MktRF_EW = Fin (29 / 100), Lagged_Mkt_Value = 300\<rparr>,
              \<lparr>m_year = 2000, m_month = 3, MktRF_VW = Fin (- (1 / 200)),
               MktRF_EW = Fin (- (1 / 200)), Lagged_Mkt_Value = 110\<rparr>]
   \<and> map p_lme (this_stocks (analysis_panel ex_crsp ex_dlret) (2000, 2)) = [200, 100]"
proof -
  note total_lagged_value_nonzero_iff [OF ex_shares_nonneg ex_monthly ex_first_row]
  with ex_shares_nonneg ex_this_stocks show ?thesis
    by (simp add: ex_monthly)
qed

section \<open>Annualized statistics\<close>

text \<open>
  C8. For the reference series \<^verbatim>\<open>mktrf\<close> and for the replicated series \<^verbatim>\<open>MktRF-VW\<close> of
  the aligned frame, NaN entries being skipped: the annualized mean is the monthly mean
  times 1200; the annualized volatility is the square root of the sample variance
  (denominator n - 1) times 100 * sqrt 12; and the Sharpe ratio is the annualized mean
  divided by the annualized volatility (where that is not zero). An infinite entry of
  the replicated series is not skipped: the mean is then that infinity (NaN when both
  infinities occur), and the volatility and the Sharpe ratio are NaN.
\<close>

theorem annualized_statistics:
  "(let xs = map (\<lambda>x. f_mktrf (snd x)) b
    in (xs \<noteq> [] \<longrightarrow> french_mean b = Fin (mean xs * 1200))
     \<and> (2 \<le> length xs \<longrightarrow>
           french_std b = Fin (sqrt (sample_variance xs) * (100 * sqrt 12))
         \<and> (sample_variance xs \<noteq> 0 \<longrightarrow>
              french_SR b = Fin (mean xs * 1200 / (sqrt (sample_variance xs) * (100 * sqrt 12))))))
   \<and> (let s = col_MktRF_VW b; ys = finite_entries s
      in (PInf \<notin> set s \<and> NInf \<notin> set s \<longrightarrow>
            (ys \<noteq> [] \<longrightarrow> replicated_mean b = Fin (mean ys * 1200))
          \<and> (2 \<le> length ys \<longrightarrow>
                replicated_std b = Fin (sqrt (sample_variance ys) * (100 * sqrt 12))
              \<and> (sample_variance ys \<noteq> 0 \<longrightarrow>
                   replicated_SR b = Fin (mean ys * 1200 / (sqrt (sample_variance ys) * (100 * sqrt 12))))))
       \<and> (PInf \<in> set s \<or> NInf \<in> set s \<longrightarrow>
            replicated_mean b =
              (if PInf \<in> set s \<and> NInf \<in> set s then NaN else if PInf \<in> set s then PInf else NInf)
          \<and> replicated_std b = NaN \<and> replicated_SR b = NaN))"
proof -
  have fin: "PInf \<notin> set (col_mktrf b)" "NInf \<notin> set (col_mktrf b)"
    by (auto simp: col_mktrf_def)
  have fe: "finite_entries (col_mktrf b) = map (\<lambda>x. f_mktrf (snd x)) b"
    by (simp add: col_mktrf_def finite_entries_Fin)
  have stats: "(ys \<noteq> [] \<longrightarrow> fval_mul (Fin 1200) (series_mean s) = Fin (mean ys * 1200))
     \<and> (2 \<le> length ys \<longrightarrow>
           fval_mul (Fin (100 * sqrt 12)) (series_std s) = Fin (sqrt (sample_variance ys) * (100 * sqrt 12))
         \<and> (sample_variance ys \<noteq> 0 \<longrightarrow>
              fval_div (fval_mul (Fin 1200) (series_mean s)) (fval_mul (Fin (100 * sqrt 12)) (series_std s))
                = Fin (mean ys * 1200 / (sqrt (sample_variance ys) * (100 * sqrt 12)))))"
    if "PInf \<notin> set s" "NInf \<notin> set s" "ys = finite_entries s" for s ys
  proof -
    have m: "ys \<noteq> [] \<Longrightarrow> series_mean s = Fin (mean ys)"
      by (simp add: series_mean_finite [OF that(1,2)] that(3))
    have d: "2 \<le> length ys \<Longrightarrow> series_std s = Fin (sqrt (sample_variance ys))"
      by (simp add: series_std_finite [OF that(1,2)] that(3))
    have ne: "2 \<le> length ys \<Longrightarrow> ys \<noteq> []" by auto
    show ?thesis
      using m d ne by (auto simp: float_div_def mult.commute)
  qed
  note f = stats [OF fin fe [symmetric], folded french_mean_def french_std_def french_SR_def]
  have r: "PInf \<notin> set (col_MktRF_VW b) \<and> NInf \<notin> set (col_MktRF_VW b) \<longrightarrow>
            (finite_entries (col_MktRF_VW b) \<noteq> [] \<longrightarrow>
               replicated_mean b = Fin (mean (finite_entries (col_MktRF_VW b)) * 1200))
          \<and> (2 \<le> length (finite_entries (col_MktRF_VW b)) \<longrightarrow>
                replicated_std b = Fin (sqrt (sample_variance (finite_entries (col_MktRF_VW b))) * (100 * sqrt 12))
              \<and> (sample_variance (finite_entries (col_MktRF_VW b)) \<noteq> 0 \<longrightarrow>
                   replicated_SR b = Fin (mean (finite_entries (col_MktRF_VW b)) * 1200
                       / (sqrt (sample_variance (finite_entries (col_MktRF_VW b))) * (100 * sqrt 12)))))"
    unfolding replicated_mean_def replicated_std_def replicated_SR_def
    using stats [of "col_MktRF_VW b" "finite_entries (col_MktRF_VW b)"] by blast
  have i: "PInf \<in> set (col_MktRF_VW b) \<or> NInf \<in> set (col_MktRF_VW b) \<longrightarrow>
            replicated_mean b =
              (if PInf \<in> set (col_MktRF_VW b) \<and> NInf \<in> set (col_MktRF_VW b) then NaN
               else if PInf \<in> set (col_MktRF_VW b) then PInf else NInf)
          \<and> replicated_std b = NaN \<and> replicated_SR b = NaN"
    by (auto simp: replicated_mean_def replicated_std_def replicated_SR_def
        series_mean_infinite series_std_infinite)
  show ?thesis
    unfolding Let_def using f r i by blast
qed

theorem annualized_statistics_witness:
  "french_mean stat_both = Fin (42/5)
   \<and> french_std stat_both = Fin (sqrt (69/200000) * (100 * sqrt 12))
   \<and> french_SR stat_both = Fin ((42/5) / (sqrt (69/200000) * (100 * sqrt 12)))
   \<and> replicated_mean stat_both = Fin 12
   \<and> replicated_std stat_both = Fin (sqrt (1/3750) * (100 * sqrt 12))
   \<and> population_variance (map (\<lambda>x. f_mktrf (snd x)) stat_both) = 69/250000
   \<and> replicated_mean stat_inf = NInf
   \<and> replicated_std stat_inf = NaN
   \<and> replicated_SR stat_inf = NaN
   \<and> monthly_returns (french_frame ex_c) (analysis_panel cancel_crsp [])
       = Inr [\<lparr>m_year = 2000, m_month = 2, MktRF_VW = NInf, MktRF_EW = Fin (29 / 100),
               Lagged_Mkt_Value = 0\<rparr>,
              \<lparr>m_year = 2000, m_month = 3, MktRF_VW = Fin (- (1 / 200)), MktRF_EW = Fin (- (1 / 200)),
               Lagged_Mkt_Value = 10\<rparr>]
   \<and> replicated_mean (both [\<lparr>m_year = 2000, m_month = 2, MktRF_VW = NInf, MktRF_EW = Fin (29 / 100),
               Lagged_Mkt_Value = 0\<rparr>,
              \<lparr>m_year = 2000, m_month = 3, MktRF_VW = Fin (- (1 / 200)), MktRF_EW = Fin (- (1 / 200)),
               Lagged_Mkt_Value = 10\<rparr>] (french_frame ex_c)) = NInf
   \<and> replicated_std (both [\<lparr>m_year = 2000, m_month = 2, MktRF_VW = NInf, MktRF_EW = Fin (29 / 100),
               Lagged_Mkt_Value = 0\<rparr>,
              \<lparr>m_year = 2000, m_month = 3, MktRF_VW = Fin (- (1 / 200)), MktRF_EW = Fin (- (1 / 200)),
               Lagged_Mkt_Value = 10\<rparr>] (french_frame ex_c)) = NaN"
proof -
  note t = annualized_statistics [of stat_both, unfolded Let_def stat_both_series stat_values]
  note u = annualized_statistics [of stat_inf, unfolded Let_def stat_both_series]
  note v = annualized_statistics [of "both [\<lparr>m_year = 2000, m_month = 2, MktRF_VW = NInf, MktRF_EW = Fin (29 / 100),
               Lagged_Mkt_Value = 0\<rparr>,
              \<lparr>m_year = 2000, m_month = 3, MktRF_VW = Fin (- (1 / 200)), MktRF_EW = Fin (- (1 / 200)),
               Lagged_Mkt_Value = 10\<rparr>] (french_frame ex_c)", unfolded Let_def cancel_both]
  have p: "population_variance (map (\<lambda>x. f_mktrf (snd x)) stat_both) = 69/250000"
    unfolding stat_both_series stat_values ..
  from t u v p cancel_monthly show ?thesis by simp
qed

section \<open>Order independence\<close>




section \<open>Sign of the market values\<close>

text \<open>
  C10, the claim as stated: every market value of the enriched panel is nonnegative. It
  fails when the raw table reports a negative number of shares: the absolute value is
  taken of the price only.
\<close>

theorem negative_shares_negative_value:
  "map me (enriched neg_shrout_crsp []) = [Some (- 5), Some 10]
   \<and> map lme (enriched neg_shrout_crsp []) = [None, Some (- 5)]
   \<and> monthly_returns (french_frame ex_c) (analysis_panel neg_shrout_crsp [])
       = Inr [\<lparr>m_year = 2000, m_month = 2, MktRF_VW = Fin (49 / 100), MktRF_EW = Fin (49 / 100),
               Lagged_Mkt_Value = - 5\<rparr>]"
  by (simp add: ex_french cell9_defs cell11_defs neg_shrout_crsp_def)

text \<open>
  C10, amended. If the shares outstanding of the raw table are nonnegative where present,
  then in every row of the enriched panel price and shares are present, the price is
  nonnegative, the market value is their product and is nonnegative, and a lagged market
  value, where defined, is nonnegative; and the total lagged market value of every month
  of the aggregated output is nonnegative.
\<close>

theorem market_values_nonnegative:
  "shares_nonneg crsp_raw \<Longrightarrow>
     (\<forall>r\<in>set (enriched crsp_raw dlret_raw).
        (\<exists>p s. prc r = Some p \<and> shrout r = Some s \<and> 0 \<le> p \<and> me r = Some (p * s) \<and> 0 \<le> p * s)
        \<and> (\<forall>l. lme r = Some l \<longrightarrow> 0 \<le> l))
   \<and> (\<forall>french out. monthly_returns french (analysis_panel crsp_raw dlret_raw) = Inr out
          \<longrightarrow> (\<forall>row\<in>set out. 0 \<le> Lagged_Mkt_Value row))"
proof -
  assume sh: "shares_nonneg crsp_raw"
  have "\<And>r. r \<in> set (enriched crsp_raw dlret_raw) \<Longrightarrow>
        (\<exists>p s. prc r = Some p \<and> shrout r = Some s \<and> 0 \<le> p \<and> me r = Some (p * s) \<and> 0 \<le> p * s)
        \<and> (\<forall>l. lme r = Some l \<longrightarrow> 0 \<le> l)"
    using enriched_rows [OF sh] by (fastforce simp: value_ok_def)
  moreover have "\<And>french out row. monthly_returns french (analysis_panel crsp_raw dlret_raw) = Inr out
      \<Longrightarrow> row \<in> set out \<Longrightarrow> 0 \<le> Lagged_Mkt_Value row"
    using sh by (rule total_lme_facts)
  ultimately show ?thesis by blast
qed

theorem market_values_nonnegative_witness:
  "shares_nonneg ex_crsp
   \<and> map me (enriched ex_crsp ex_dlret)
       = [Some 200, Some 300, Some 400, Some 100, Some 110, Some 0, Some 70, Some 80]
   \<and> map lme (enriched ex_crsp ex_dlret)
       = [None, Some 200, None, None, Some 100, Some 110, None, Some 70]"
proof -
  note market_values_nonnegative [OF ex_shares_nonneg, of ex_dlret]
  with ex_shares_nonneg show ?thesis
    by (simp add: ex_enriched)
qed

end
